theory Spec2Isabelle
  imports Complex_Main "HOL-Library.Log_Nat" "HOL-Library.Sublist"
begin

section \<open>Values, errors and the numpy operations the students use\<close>

text \<open>
  Every raise of the Python source is a branch of the model: a function that can raise
  returns \<open>error + 'a\<close>, with \<open>Inl\<close> carrying the exception.
\<close>

datatype os_failure = FileExists | PermissionDenied | InvalidPath

datatype error =
    IndexError
  | ValueError
  | TypeError
  | NameError string
  | ZeroDivisionError
  | AssertionError
  | AttributeError string
  | OSError os_failure
  | LoadError

text \<open>
  \<open>Student.do_exercise\<close> returns the integers \<open>1\<close> and \<open>0\<close>;
  \<open>Student2.do_exercise\<close> returns what \<open>learned_all_concepts_in_ex\<close> returns, the
  booleans \<open>True\<close> and \<open>False\<close>. Python's \<open>bool\<close> is a subclass of \<open>int\<close>
  (\<open>True == 1\<close>, \<open>False == 0\<close>); \<open>py_int\<close> is that reading.
\<close>

datatype pyval = PyInt int | PyBool bool

fun py_int :: "pyval \<Rightarrow> int" where
  "py_int (PyInt i) = i"
| "py_int (PyBool b) = (if b then 1 else 0)"

text \<open>
  The knowledge vector is a numpy array whose entries the code only ever sets to \<open>0\<close>
  or \<open>1\<close>; entries are integers here. \<open>np.multiply\<close> of two one-dimensional arrays
  multiplies entry by entry when the lengths agree, broadcasts an array of length one, and
  raises \<open>ValueError\<close> otherwise.
\<close>

definition np_multiply :: "int list \<Rightarrow> int list \<Rightarrow> error + int list" where
  "np_multiply xs ys =
     (if length xs = length ys then Inr (map2 (*) xs ys)
      else if length xs = 1 then Inr (map (\<lambda>y. hd xs * y) ys)
      else if length ys = 1 then Inr (map (\<lambda>x. x * hd ys) xs)
      else Inl ValueError)"

definition np_sum :: "int list \<Rightarrow> int" where
  "np_sum xs = sum_list xs"

text \<open>
  The concept dependency graph (module \<open>concept_dependency_graph\<close>) is not part of the
  sources at hand. The students only call \<open>concept_tree.get_prereqs(i)\<close>, so a graph is
  that function: the prerequisite indicator vector of each concept.
\<close>

type_synonym concept_tree = "nat \<Rightarrow> int list"

text \<open>
  Modelled from the spec: the class \<open>Exercise\<close> of module \<open>exercise\<close> is missing from
  the sources; the spec describes it as an immutable value holding the binary vector
  \<open>concepts\<close> it was constructed from, with no validation.
\<close>

datatype exercise = Exercise (concepts: "int list")

section \<open>fulfilled\_prereqs and learned\_all\_concepts\_in\_ex\<close>

text \<open>
  Both classes carry the same two methods, reading only \<open>self.knowledge\<close>. The loops run
  over \<open>xrange(len(concepts))\<close>; the recursion carries the index and the entries still to
  visit.
\<close>

fun fulfilled_prereqs_loop :: "concept_tree \<Rightarrow> int list \<Rightarrow> nat \<Rightarrow> int list \<Rightarrow> error + bool" where
  "fulfilled_prereqs_loop tree kn i [] = Inr True"
| "fulfilled_prereqs_loop tree kn i (c # cs) =
     (if c = 1 then
        (case np_multiply kn (tree i) of
           Inl e \<Rightarrow> Inl e
         | Inr kp \<Rightarrow>
             if np_sum kp \<noteq> np_sum (tree i) then Inr False
             else fulfilled_prereqs_loop tree kn (Suc i) cs)
      else fulfilled_prereqs_loop tree kn (Suc i) cs)"

definition fulfilled_prereqs :: "concept_tree \<Rightarrow> int list \<Rightarrow> int list \<Rightarrow> error + bool" where
  "fulfilled_prereqs tree kn cs = fulfilled_prereqs_loop tree kn 0 cs"

fun learned_all_loop :: "int list \<Rightarrow> nat \<Rightarrow> int list \<Rightarrow> error + bool" where
  "learned_all_loop kn c [] = Inr True"
| "learned_all_loop kn c (x # xs) =
     (if x = 1 then
        (if c < length kn then
           (if kn ! c = 0 then Inr False else learned_all_loop kn (Suc c) xs)
         else Inl IndexError)
      else learned_all_loop kn (Suc c) xs)"

definition learned_all_concepts_in_ex :: "int list \<Rightarrow> int list \<Rightarrow> error + bool" where
  "learned_all_concepts_in_ex kn cs = learned_all_loop kn 0 cs"

section \<open>Student: the probabilistic model\<close>

text \<open>
  The draws of \<open>np.random.random()\<close> are an input: \<open>rng k\<close> is the \<open>k\<close>-th draw of
  the run, and every function that draws takes the number of draws made so far and returns
  the number made after it.
\<close>

record student =
  p_trans_satisfied :: real
  p_trans_not_satisfied :: real
  p_get_ex_correct_if_concepts_learned :: real
  knowledge :: "int list"

text \<open>
  The update loop of \<open>Student.do_exercise\<close>: \<open>and\<close> short-circuits, so a draw is made
  only for a concept the exercise marks.
\<close>

fun student_learn_loop ::
  "student \<Rightarrow> (nat \<Rightarrow> real) \<Rightarrow> nat \<Rightarrow> nat \<Rightarrow> int list \<Rightarrow> error + (student \<times> nat)" where
  "student_learn_loop s rng pos c [] = Inr (s, pos)"
| "student_learn_loop s rng pos c (x # xs) =
     (if x = 1 then
        (if rng pos \<le> p_trans_satisfied s then
           (if c < length (knowledge s) then
              student_learn_loop (s\<lparr>knowledge := (knowledge s)[c := 1]\<rparr>) rng (Suc pos) (Suc c) xs
            else Inl IndexError)
         else student_learn_loop s rng (Suc pos) (Suc c) xs)
      else student_learn_loop s rng pos (Suc c) xs)"

definition Student_do_exercise ::
  "concept_tree \<Rightarrow> student \<Rightarrow> exercise \<Rightarrow> (nat \<Rightarrow> real) \<Rightarrow> nat \<Rightarrow> error + (pyval \<times> student \<times> nat)" where
  "Student_do_exercise tree s ex rng pos =
     (case fulfilled_prereqs tree (knowledge s) (concepts ex) of
        Inl e \<Rightarrow> Inl e
      | Inr True \<Rightarrow>
          (case student_learn_loop s rng pos 0 (concepts ex) of
             Inl e \<Rightarrow> Inl e
           | Inr (s', pos') \<Rightarrow>
               (case learned_all_concepts_in_ex (knowledge s') (concepts ex) of
                  Inl e \<Rightarrow> Inl e
                | Inr True \<Rightarrow>
                    Inr (if rng pos' \<le> p_get_ex_correct_if_concepts_learned s'
                         then PyInt 1 else PyInt 0, s', Suc pos')
                | Inr False \<Rightarrow> Inr (PyInt 0, s', pos')))
      | Inr False \<Rightarrow>
          Inr (if rng pos \<le> p_trans_not_satisfied s then PyInt 1 else PyInt 0, s, Suc pos))"

section \<open>Student2: the deterministic two-try model\<close>

record student2 =
  knowledge2 :: "int list"
  visited :: "int list"

text \<open>
  The update loop of \<open>Student2.do_exercise\<close>. Reading \<open>self.visited[c]\<close> and writing
  \<open>self.knowledge[c]\<close> raise \<open>IndexError\<close> past the end of the array.
\<close>

fun student2_visit_loop :: "student2 \<Rightarrow> nat \<Rightarrow> int list \<Rightarrow> error + student2" where
  "student2_visit_loop s c [] = Inr s"
| "student2_visit_loop s c (x # xs) =
     (if x = 1 then
        (if c < length (visited s) then
           (if visited s ! c \<ge> 1 then
              (if c < length (knowledge2 s) then
                 student2_visit_loop
                   (s\<lparr>knowledge2 := (knowledge2 s)[c := 1], visited := (visited s)[c := 1]\<rparr>)
                   (Suc c) xs
               else Inl IndexError)
            else student2_visit_loop (s\<lparr>visited := (visited s)[c := 1]\<rparr>) (Suc c) xs)
         else Inl IndexError)
      else student2_visit_loop s (Suc c) xs)"

definition Student2_do_exercise ::
  "concept_tree \<Rightarrow> student2 \<Rightarrow> exercise \<Rightarrow> error + (pyval \<times> student2)" where
  "Student2_do_exercise tree s ex =
     (case fulfilled_prereqs tree (knowledge2 s) (concepts ex) of
        Inl e \<Rightarrow> Inl e
      | Inr ok \<Rightarrow>
          (case (if ok then student2_visit_loop s 0 (concepts ex) else Inr s) of
             Inl e \<Rightarrow> Inl e
           | Inr s' \<Rightarrow>
               (case learned_all_concepts_in_ex (knowledge2 s') (concepts ex) of
                  Inl e \<Rightarrow> Inl e
                | Inr r \<Rightarrow> Inr (PyBool r, s'))))"

text \<open>The one-hot vector of concept \<open>c\<close> among \<open>n\<close>: a single-concept exercise.\<close>

definition one_hot :: "nat \<Rightarrow> nat \<Rightarrow> int list" where
  "one_hot n c = (replicate n 0)[c := 1]"

section \<open>StudentExactSim\<close>

text \<open>
  The simulator wraps any object with a \<open>knowledge\<close> attribute and a \<open>do_exercise\<close>
  method; the two classes of the module are the two cases. \<open>do_exercise\<close> is the method
  call \<open>self.student.do_exercise(...)\<close>, dispatched on the class of the student.
\<close>

datatype any_student = AStudent student | AStudent2 student2

fun student_knowledge :: "any_student \<Rightarrow> int list" where
  "student_knowledge (AStudent s) = knowledge s"
| "student_knowledge (AStudent2 s) = knowledge2 s"

fun do_exercise ::
  "concept_tree \<Rightarrow> any_student \<Rightarrow> exercise \<Rightarrow> (nat \<Rightarrow> real) \<Rightarrow> nat \<Rightarrow> error + (pyval \<times> any_student \<times> nat)" where
  "do_exercise tree (AStudent s) ex rng pos =
     (case Student_do_exercise tree s ex rng pos of
        Inl e \<Rightarrow> Inl e
      | Inr (ob, s', pos') \<Rightarrow> Inr (ob, AStudent s', pos'))"
| "do_exercise tree (AStudent2 s) ex rng pos =
     (case Student2_do_exercise tree s ex of
        Inl e \<Rightarrow> Inl e
      | Inr (ob, s') \<Rightarrow> Inr (ob, AStudent2 s', pos))"

record student_action =
  concept :: nat
  conceptvec :: "int list"

record student_exact_sim =
  sim_student :: any_student
  dgraph :: concept_tree

text \<open>
  \<open>advance_simulator\<close>: \<open>np.sum\<close> returns a number, not a view of the array, so
  \<open>reward\<close> is fixed before \<open>do_exercise\<close> runs.
\<close>

definition advance_simulator ::
  "student_exact_sim \<Rightarrow> student_action \<Rightarrow> (nat \<Rightarrow> real) \<Rightarrow> nat
     \<Rightarrow> error + ((pyval \<times> int) \<times> student_exact_sim \<times> nat)" where
  "advance_simulator sim action rng pos =
     (let reward = np_sum (student_knowledge (sim_student sim)) in
      case do_exercise (dgraph sim) (sim_student sim) (Exercise (conceptvec action)) rng pos of
        Inl e \<Rightarrow> Inl e
      | Inr (ob, s', pos') \<Rightarrow> Inr ((ob, reward), sim\<lparr>sim_student := s'\<rparr>, pos'))"

section \<open>StudentAction as a key\<close>

definition StudentAction_eq :: "student_action \<Rightarrow> student_action \<Rightarrow> bool" where
  "StudentAction_eq a b = (concept a = concept b)"

definition StudentAction_hash :: "student_action \<Rightarrow> nat" where
  "StudentAction_hash a = concept a"

text \<open>
  A Python dictionary, as far as its keys' methods decide it: an entry is found under a
  key when the hashes agree and \<open>__eq__\<close> holds; storing under a key that is found
  replaces the value and keeps the stored key. The search tree's \<open>children\<close> is such a
  dictionary over actions.
\<close>

definition key_match :: "student_action \<Rightarrow> student_action \<Rightarrow> bool" where
  "key_match k k' = (StudentAction_hash k = StudentAction_hash k' \<and> StudentAction_eq k' k)"

fun dict_get :: "(student_action \<times> 'v) list \<Rightarrow> student_action \<Rightarrow> 'v option" where
  "dict_get [] k = None"
| "dict_get ((k', v) # d) k = (if key_match k k' then Some v else dict_get d k)"

fun dict_set :: "(student_action \<times> 'v) list \<Rightarrow> student_action \<Rightarrow> 'v \<Rightarrow> (student_action \<times> 'v) list" where
  "dict_set [] k v = [(k, v)]"
| "dict_set ((k', v') # d) k v =
     (if key_match k k' then (k', v) # d else (k', v') # dict_set d k v)"

section \<open>Properties of the students\<close>

lemma learned_all_loop_zeros: "learned_all_loop kn i (replicate m 0) = Inr True"
  by (induction m arbitrary: i) simp_all

lemma student2_visit_loop_zeros: "student2_visit_loop s i (replicate m 0) = Inr s"
  by (induction m arbitrary: i) simp_all

lemma replicate_Suc_update:
  "(replicate (Suc m) (0::int))[j := 1] =
     (case j of 0 \<Rightarrow> 1 # replicate m 0 | Suc j' \<Rightarrow> 0 # (replicate m 0)[j' := 1])"
  by (cases j) simp_all

lemma learned_all_loop_one_hot:
  "j < m \<Longrightarrow>
   learned_all_loop kn i ((replicate m 0)[j := 1]) =
     (if i + j < length kn then Inr (kn ! (i + j) \<noteq> 0) else Inl IndexError)"
proof (induction m arbitrary: i j)
  case 0
  then show ?case by simp
next
  case (Suc m)
  show ?case
  proof (cases j)
    case 0
    then show ?thesis
      by (simp add: learned_all_loop_zeros)
  next
    case (Suc j')
    with Suc.prems have "j' < m" by simp
    from Suc.IH [OF this, of "Suc i"] Suc show ?thesis
      by simp
  qed
qed

text \<open>What one marked concept does to a \<open>Student2\<close> in the update loop.\<close>

definition student2_visit :: "student2 \<Rightarrow> nat \<Rightarrow> error + student2" where
  "student2_visit s c =
     (if c < length (visited s) then
        (if visited s ! c \<ge> 1 then
           (if c < length (knowledge2 s) then
              Inr (s\<lparr>knowledge2 := (knowledge2 s)[c := 1], visited := (visited s)[c := 1]\<rparr>)
            else Inl IndexError)
         else Inr (s\<lparr>visited := (visited s)[c := 1]\<rparr>))
      else Inl IndexError)"

lemma student2_visit_loop_one_hot:
  "j < m \<Longrightarrow> student2_visit_loop s i ((replicate m 0)[j := 1]) = student2_visit s (i + j)"
proof (induction m arbitrary: i j)
  case 0
  then show ?case by simp
next
  case (Suc m)
  show ?case
  proof (cases j)
    case 0
    then show ?thesis
      by (simp add: student2_visit_loop_zeros student2_visit_def)
  next
    case (Suc j')
    with Suc.prems have "j' < m" by simp
    from Suc.IH [OF this, of "Suc i"] Suc show ?thesis
      by simp
  qed
qed

lemma Student2_do_exercise_one_hot:
  assumes "c < n" and "fulfilled_prereqs tree (knowledge2 s) (one_hot n c) = Inr True"
  shows "Student2_do_exercise tree s (Exercise (one_hot n c)) =
     (case student2_visit s c of
        Inl e \<Rightarrow> Inl e
      | Inr s' \<Rightarrow>
          if c < length (knowledge2 s') then Inr (PyBool (knowledge2 s' ! c \<noteq> 0), s')
          else Inl IndexError)"
  using assms
  by (simp add: Student2_do_exercise_def one_hot_def student2_visit_loop_one_hot
      learned_all_concepts_in_ex_def learned_all_loop_one_hot split: sum.splits)

text \<open>
  \<open>visited[c]\<close> is zeroed by \<open>__init__\<close> and \<open>reset\<close> and written nowhere but in the
  gated branch of \<open>do_exercise\<close> (line 144), where it becomes \<open>1\<close>: a call on
  concept \<open>c\<close> with its prerequisites mastered is the first one exactly when
  \<open>visited[c]\<close> is still \<open>0\<close>, and a later one exactly when \<open>visited[c] \<ge> 1\<close>.
\<close>

text \<open>
  C1: Student2 two-try determinism. For every \<open>Student2\<close> state and single-concept
  exercise testing concept \<open>c\<close> whose prerequisites are all mastered and with
  \<open>knowledge[c] = 0\<close>, the first call to \<open>do_exercise\<close> (\<open>c\<close> not yet attempted:
  \<open>visited[c] < 1\<close>) returns \<open>False\<close> (Python's \<open>0\<close>), changes nothing but
  \<open>visited[c]\<close>, which becomes \<open>1\<close>, and so leaves \<open>knowledge[c] = 0\<close> and the
  prerequisites satisfied; a second call on the same concept returns \<open>True\<close> (Python's
  \<open>1\<close>) and sets \<open>knowledge[c] = 1\<close> in that same call. The second half holds from
  every state in which \<open>c\<close> has been attempted (\<open>visited[c] \<ge> 1\<close>) and its
  prerequisites are satisfied, whatever happened in between. No random draw is an
  argument of \<open>Student2_do_exercise\<close>.
\<close>

theorem Student2_two_try_determinism:
  assumes "c < n"
    and "c < length (knowledge2 s)" and "c < length (visited s)"
    and "fulfilled_prereqs tree (knowledge2 s) (one_hot n c) = Inr True"
    and "knowledge2 s ! c = 0" and "visited s ! c < 1"
  shows "Student2_do_exercise tree s (Exercise (one_hot n c))
           = Inr (PyBool False, s\<lparr>visited := (visited s)[c := 1]\<rparr>)
       \<and> py_int (PyBool False) = 0
       \<and> fulfilled_prereqs tree (knowledge2 (s\<lparr>visited := (visited s)[c := 1]\<rparr>)) (one_hot n c)
           = Inr True
       \<and> Student2_do_exercise tree (s\<lparr>visited := (visited s)[c := 1]\<rparr>) (Exercise (one_hot n c))
           = Inr (PyBool True,
                  s\<lparr>knowledge2 := (knowledge2 s)[c := 1], visited := (visited s)[c := 1]\<rparr>)
       \<and> py_int (PyBool True) = 1
       \<and> (\<forall>t. c < length (knowledge2 t) \<and> c < length (visited t) \<and> visited t ! c \<ge> 1
              \<and> fulfilled_prereqs tree (knowledge2 t) (one_hot n c) = Inr True
            \<longrightarrow> Student2_do_exercise tree t (Exercise (one_hot n c))
                  = Inr (PyBool True,
                         t\<lparr>knowledge2 := (knowledge2 t)[c := 1], visited := (visited t)[c := 1]\<rparr>))"
proof -
  let ?s1 = "s\<lparr>visited := (visited s)[c := 1]\<rparr>"
  have first: "Student2_do_exercise tree s (Exercise (one_hot n c)) = Inr (PyBool False, ?s1)"
    using assms by (simp add: Student2_do_exercise_one_hot student2_visit_def)
  have later: "Student2_do_exercise tree t (Exercise (one_hot n c))
                 = Inr (PyBool True,
                        t\<lparr>knowledge2 := (knowledge2 t)[c := 1], visited := (visited t)[c := 1]\<rparr>)"
    if "c < length (knowledge2 t)" and "c < length (visited t)" and "visited t ! c \<ge> 1"
      and "fulfilled_prereqs tree (knowledge2 t) (one_hot n c) = Inr True" for t
    using that assms(1) by (simp add: Student2_do_exercise_one_hot student2_visit_def)
  have still: "fulfilled_prereqs tree (knowledge2 ?s1) (one_hot n c) = Inr True"
    using assms(4) by simp
  have "Student2_do_exercise tree ?s1 (Exercise (one_hot n c))
          = Inr (PyBool True,
                 ?s1\<lparr>knowledge2 := (knowledge2 ?s1)[c := 1], visited := (visited ?s1)[c := 1]\<rparr>)"
    using assms(2,3) still by (intro later) simp_all
  then have second: "Student2_do_exercise tree ?s1 (Exercise (one_hot n c))
          = Inr (PyBool True,
                 s\<lparr>knowledge2 := (knowledge2 s)[c := 1], visited := (visited s)[c := 1]\<rparr>)"
    by simp
  from first still second later show ?thesis
    by simp
qed

theorem Student2_two_try_determinism_witness:
  "Student2_do_exercise (\<lambda>i. if i = 1 then [1, 0] else [0, 0])
      \<lparr>knowledge2 = [1, 0], visited = [0, 0]\<rparr> (Exercise (one_hot 2 1))
     = Inr (PyBool False, \<lparr>knowledge2 = [1, 0], visited = [0, 1]\<rparr>)
   \<and> Student2_do_exercise (\<lambda>i. if i = 1 then [1, 0] else [0, 0])
      \<lparr>knowledge2 = [1, 0], visited = [0, 1]\<rparr> (Exercise (one_hot 2 1))
     = Inr (PyBool True, \<lparr>knowledge2 = [1, 1], visited = [0, 1]\<rparr>)"
proof -
  have pre: "fulfilled_prereqs (\<lambda>i. if i = 1 then [1, 0] else [0, 0])
      (knowledge2 \<lparr>knowledge2 = [1, 0], visited = [0, 0]\<rparr>) (one_hot 2 1) = Inr True"
    by (simp add: fulfilled_prereqs_def np_multiply_def np_sum_def one_hot_def numeral_2_eq_2)
  show ?thesis
    using Student2_two_try_determinism [of 1 2 "\<lparr>knowledge2 = [1, 0], visited = [0, 0]\<rparr>"
        "\<lambda>i. if i = 1 then [1, 0] else [0, 0]", OF _ _ _ pre]
    by simp
qed

text \<open>
  C2: reward timing of the exact simulator. For every simulator state, action and
  sequence of draws: when \<open>student.do_exercise\<close> on the exercise built from
  \<open>action.conceptvec\<close> returns the observation \<open>ob\<close> and leaves the student as \<open>s'\<close>,
  \<open>advance_simulator\<close> returns the pair of \<open>ob\<close> and the sum of the knowledge vector as
  it stood before the call, and the simulator now holds \<open>s'\<close>; when \<open>do_exercise\<close>
  raises, so does \<open>advance_simulator\<close>.
\<close>

theorem advance_simulator_reward_before_update:
  "(\<forall>ob s' pos'.
      do_exercise (dgraph sim) (sim_student sim) (Exercise (conceptvec action)) rng pos
        = Inr (ob, s', pos')
      \<longrightarrow> advance_simulator sim action rng pos
        = Inr ((ob, np_sum (student_knowledge (sim_student sim))),
               sim\<lparr>sim_student := s'\<rparr>, pos'))
   \<and> (\<forall>e.
      do_exercise (dgraph sim) (sim_student sim) (Exercise (conceptvec action)) rng pos = Inl e
      \<longrightarrow> advance_simulator sim action rng pos = Inl e)"
  by (simp add: advance_simulator_def)

text \<open>
  The witness is a step that changes the knowledge: the student enters with one concept
  mastered and leaves with two, and the reward is \<open>1\<close>.
\<close>

theorem advance_simulator_reward_before_update_witness:
  "advance_simulator
     \<lparr>sim_student = AStudent2 \<lparr>knowledge2 = [1, 0], visited = [0, 1]\<rparr>,
      dgraph = (\<lambda>i. if i = 1 then [1, 0] else [0, 0])\<rparr>
     \<lparr>concept = 1, conceptvec = [0, 1]\<rparr> (\<lambda>k. 0) 0
   = Inr ((PyBool True, 1),
          \<lparr>sim_student = AStudent2 \<lparr>knowledge2 = [1, 1], visited = [0, 1]\<rparr>,
           dgraph = (\<lambda>i. if i = 1 then [1, 0] else [0, 0])\<rparr>, 0)
   \<and> np_sum [1, 1] = 2"
proof -
  have run: "do_exercise (\<lambda>i. if i = 1 then [1, 0] else [0, 0])
      (AStudent2 \<lparr>knowledge2 = [1, 0], visited = [0, 1]\<rparr>) (Exercise [0, 1]) (\<lambda>k. 0) 0
    = Inr (PyBool True, AStudent2 \<lparr>knowledge2 = [1, 1], visited = [0, 1]\<rparr>, 0)"
    by (simp add: fulfilled_prereqs_def np_multiply_def np_sum_def
        Student2_do_exercise_def learned_all_concepts_in_ex_def)
  show ?thesis
    using advance_simulator_reward_before_update
      [of "\<lparr>sim_student = AStudent2 \<lparr>knowledge2 = [1, 0], visited = [0, 1]\<rparr>,
            dgraph = (\<lambda>i. if i = 1 then [1, 0] else [0, 0])\<rparr>"
          "\<lparr>concept = 1, conceptvec = [0, 1]\<rparr>" "\<lambda>k. 0" 0]
      run
    by (simp add: np_sum_def)
qed

text \<open>
  C3: prerequisite gating for the probabilistic \<open>Student\<close>. For every state and exercise
  for which \<open>fulfilled_prereqs\<close> returns \<open>False\<close>, \<open>do_exercise\<close> makes exactly one
  draw, returns \<open>1\<close> when that draw is at most \<open>p_trans_not_satisfied\<close> and \<open>0\<close>
  otherwise, and leaves the student, its knowledge vector included, as it was.
\<close>

theorem Student_prerequisite_gating:
  assumes "fulfilled_prereqs tree (knowledge s) (concepts ex) = Inr False"
  shows "Student_do_exercise tree s ex rng pos
           = Inr (if rng pos \<le> p_trans_not_satisfied s then PyInt 1 else PyInt 0, s, Suc pos)"
  using assms by (simp add: Student_do_exercise_def)

text \<open>
  The witness is the setting of the spec's first testable property: the sole prerequisite
  of concept \<open>2\<close> is concept \<open>1\<close>, nothing is mastered, the exercise tests concept
  \<open>2\<close>; with \<open>p_trans_not_satisfied = 0.3\<close> a draw of \<open>0.2\<close> gives \<open>1\<close>.
\<close>

theorem Student_prerequisite_gating_witness:
  "Student_do_exercise (\<lambda>i. if i = 2 then [0, 1, 0] else [0, 0, 0])
     \<lparr>p_trans_satisfied = 1 / 2, p_trans_not_satisfied = 3 / 10,
      p_get_ex_correct_if_concepts_learned = 1, knowledge = [0, 0, 0]\<rparr>
     (Exercise [0, 0, 1]) (\<lambda>k. 1 / 5) 0
   = Inr (PyInt 1,
          \<lparr>p_trans_satisfied = 1 / 2, p_trans_not_satisfied = 3 / 10,
           p_get_ex_correct_if_concepts_learned = 1, knowledge = [0, 0, 0]\<rparr>, 1)"
proof -
  have pre: "fulfilled_prereqs (\<lambda>i. if i = 2 then [0, 1, 0] else [0, 0, 0])
      (knowledge \<lparr>p_trans_satisfied = 1 / 2, p_trans_not_satisfied = 3 / 10,
         p_get_ex_correct_if_concepts_learned = 1, knowledge = [0, 0, 0]\<rparr>)
      (concepts (Exercise [0, 0, 1])) = Inr False"
    by (simp add: fulfilled_prereqs_def np_multiply_def np_sum_def)
  show ?thesis
    using Student_prerequisite_gating [OF pre, of "\<lambda>k. 1 / 5" 0]
    by simp
qed

section \<open>Properties of StudentAction\<close>

lemma key_match_same_concept:
  "concept a = concept b \<Longrightarrow> key_match a k = key_match b k"
  unfolding key_match_def StudentAction_eq_def StudentAction_hash_def by simp

lemma key_match_refl_concept:
  "concept a = concept b \<Longrightarrow> key_match b a"
  unfolding key_match_def StudentAction_eq_def StudentAction_hash_def by simp

lemma dict_get_same_concept:
  "concept a = concept b \<Longrightarrow> dict_get d a = dict_get d b"
proof (induction d)
  case Nil
  then show ?case by simp
next
  case (Cons p d)
  obtain k' v' where p: "p = (k', v')" by (cases p)
  have km: "key_match a k' = key_match b k'"
    using Cons.prems by (rule key_match_same_concept)
  show ?case
    unfolding p using Cons.IH [OF Cons.prems] km by simp
qed

lemma dict_set_same_concept:
  "concept a = concept b \<Longrightarrow> dict_get (dict_set d a v) k = dict_get (dict_set d b v) k"
proof (induction d)
  case Nil
  have "key_match k a = key_match k b"
    using Nil unfolding key_match_def StudentAction_eq_def StudentAction_hash_def by simp
  then show ?case by simp
next
  case (Cons p d)
  obtain k' v' where p: "p = (k', v')" by (cases p)
  have km: "key_match a k' = key_match b k'"
    using Cons.prems by (rule key_match_same_concept)
  show ?case
    unfolding p using Cons.IH [OF Cons.prems] km by simp
qed

lemma dict_get_set_same_concept:
  "concept a = concept b \<Longrightarrow> dict_get (dict_set d a v) b = Some v"
proof (induction d)
  case Nil
  then show ?case by (simp add: key_match_refl_concept)
next
  case (Cons p d)
  obtain k' v' where p: "p = (k', v')" by (cases p)
  have km: "key_match a k' = key_match b k'"
    using Cons.prems by (rule key_match_same_concept)
  show ?case
    unfolding p using Cons.IH [OF Cons.prems] km by simp
qed

text \<open>
  C4: StudentAction key identity. For all actions \<open>a\<close> and \<open>b\<close>, \<open>a == b\<close> holds if
  and only if the concepts agree, and the hash of \<open>a\<close> is its concept; so two actions
  with the same concept, whatever their \<open>conceptvec\<close>, are equal, hash-equal, and
  interchangeable as dictionary keys: either finds what is stored under the other, and
  storing under either gives dictionaries that answer every lookup alike.
\<close>

theorem StudentAction_key_identity:
  "(StudentAction_eq a b \<longleftrightarrow> concept a = concept b)
   \<and> StudentAction_hash a = concept a
   \<and> (concept a = concept b \<longrightarrow>
        StudentAction_eq a b \<and> StudentAction_hash a = StudentAction_hash b
        \<and> (\<forall>d :: (student_action \<times> 'v) list. dict_get d a = dict_get d b)
        \<and> (\<forall>(d :: (student_action \<times> 'v) list) v. dict_get (dict_set d a v) b = Some v)
        \<and> (\<forall>(d :: (student_action \<times> 'v) list) v k.
              dict_get (dict_set d a v) k = dict_get (dict_set d b v) k))"
proof (intro conjI impI allI)
  show "StudentAction_eq a b \<longleftrightarrow> concept a = concept b"
    by (simp add: StudentAction_eq_def)
  show "StudentAction_hash a = concept a"
    by (simp add: StudentAction_hash_def)
next
  assume same: "concept a = concept b"
  show "StudentAction_eq a b"
    using same by (simp add: StudentAction_eq_def)
  show "StudentAction_hash a = StudentAction_hash b"
    using same by (simp add: StudentAction_hash_def)
  show "dict_get d a = dict_get d b" for d :: "(student_action \<times> 'v) list"
    using same by (rule dict_get_same_concept)
  show "dict_get (dict_set d a v) b = Some v" for d :: "(student_action \<times> 'v) list" and v
    using same by (rule dict_get_set_same_concept)
  show "dict_get (dict_set d a v) k = dict_get (dict_set d b v) k"
    for d :: "(student_action \<times> 'v) list" and v k
    using same by (rule dict_set_same_concept)
qed

theorem StudentAction_key_identity_witness:
  "StudentAction_eq \<lparr>concept = 1, conceptvec = [0, 1]\<rparr> \<lparr>concept = 1, conceptvec = [1, 1]\<rparr>
   \<and> StudentAction_hash \<lparr>concept = 1, conceptvec = [0, 1]\<rparr>
       = StudentAction_hash \<lparr>concept = 1, conceptvec = [1, 1]\<rparr>
   \<and> dict_get (dict_set [] \<lparr>concept = 1, conceptvec = [0, 1]\<rparr> (7 :: nat))
        \<lparr>concept = 1, conceptvec = [1, 1]\<rparr> = Some 7
   \<and> \<not> StudentAction_eq \<lparr>concept = 1, conceptvec = [0, 1]\<rparr> \<lparr>concept = 0, conceptvec = [0, 1]\<rparr>"
  using StudentAction_key_identity
    [of "\<lparr>concept = 1, conceptvec = [0, 1]\<rparr>" "\<lparr>concept = 1, conceptvec = [1, 1]\<rparr>",
     where ?'v = nat]
    StudentAction_key_identity
    [of "\<lparr>concept = 1, conceptvec = [0, 1]\<rparr>" "\<lparr>concept = 0, conceptvec = [0, 1]\<rparr>",
     where ?'v = nat]
  by (simp add: key_match_def StudentAction_eq_def StudentAction_hash_def)

section \<open>Training orchestration: the checkpoint directory and the partition of the runs\<close>

text \<open>
  \<open>os.makedirs\<close> acts on the file system, which is outside the program: its outcome is
  an input, \<open>Inr ()\<close> when the directory was created and \<open>Inl (OSError f)\<close> when the
  call raised. Both copies of \<open>dkt_train_models\<close> (in \<open>model_training.py\<close> and in
  \<open>mcts_tests.py\<close>) open with the same statement,
  \<^verbatim>\<open>try: os.makedirs(params.dir_name)  except: pass\<close>,
  whose handler names no exception class.
\<close>

definition try_makedirs :: "error + unit \<Rightarrow> error + unit" where
  "try_makedirs outcome = (case outcome of Inl e \<Rightarrow> Inr () | Inr u \<Rightarrow> Inr ())"

text \<open>
  \<open>range(start, stop, step)\<close> of Python, which raises \<open>ValueError\<close> on a zero step.
\<close>

definition py_range :: "int \<Rightarrow> int \<Rightarrow> int \<Rightarrow> error + int list" where
  "py_range start stop step =
     (if step = 0 then Inl ValueError
      else if step > 0 then
        Inr (map (\<lambda>k. start + int k * step) [0..<nat ((stop - start + step - 1) div step)])
      else
        Inr (map (\<lambda>k. start + int k * step) [0..<nat ((start - stop - step - 1) div (- step))]))"

text \<open>
  Lines 115 to 121 of \<open>dkt_train_models\<close> and lines 225 to 232 of
  \<open>dkt_memoize_models\<close> are the same text: the worker count, the assertion, the chunk
  size and the start indices handed to the workers. Python's \<open>%\<close> raises
  \<open>ZeroDivisionError\<close> on a zero divisor and otherwise takes the sign of the divisor, as
  \<open>mod\<close> on \<open>int\<close> does. The result is the worker count and, for every worker, its
  start index and its number of runs.
\<close>

definition partition_runs :: "int \<Rightarrow> error + (int \<times> (int \<times> int) list)" where
  "partition_runs num_runs =
     (let n_jobs = min 5 num_runs in
      if n_jobs = 0 then Inl ZeroDivisionError
      else if num_runs mod n_jobs \<noteq> 0 then Inl AssertionError
      else
        (let runs_per_job = num_runs div n_jobs in
         case py_range 0 num_runs runs_per_job of
           Inl e \<Rightarrow> Inl e
         | Inr starts \<Rightarrow> Inr (n_jobs, map (\<lambda>startix. (startix, runs_per_job)) starts)))"

text \<open>
  A chunk worker (\<open>_dkt_train_models_chunk\<close>, \<open>dkt_memoize_chunk\<close>) handles the runs
  \<open>runstartix + offset\<close> for \<open>offset\<close> in \<open>range(chunk_num_runs)\<close>.
\<close>

definition chunk_runs :: "int \<times> int \<Rightarrow> int list" where
  "chunk_runs c = map (\<lambda>offset. fst c + int offset) [0..<nat (snd c)]"

text \<open>
  The parallel map: the workers run one after the other here, and the first failure
  aborts the call, as a failing worker does under \<open>joblib\<close>.
\<close>

fun parallel_map :: "('a \<Rightarrow> error + 'b) \<Rightarrow> 'a list \<Rightarrow> error + 'b list" where
  "parallel_map f [] = Inr []"
| "parallel_map f (x # xs) =
     (case f x of
        Inl e \<Rightarrow> Inl e
      | Inr y \<Rightarrow> (case parallel_map f xs of Inl e \<Rightarrow> Inl e | Inr ys \<Rightarrow> Inr (y # ys)))"

text \<open>
  \<open>dkt_train_models\<close> of \<open>model_training.py\<close>. The chunk worker trains models, which
  is outside the sources at hand: it is the parameter \<open>train_chunk\<close>, returning the
  training and validation losses of its runs. The result is what is handed to
  \<open>np.savez\<close>.
\<close>

definition dkt_train_models ::
  "error + unit \<Rightarrow> int \<Rightarrow> (int \<times> int \<Rightarrow> error + (real list list \<times> real list list))
     \<Rightarrow> error + (real list list \<times> real list list)" where
  "dkt_train_models makedirs_outcome num_runs train_chunk =
     (case try_makedirs makedirs_outcome of
        Inl e \<Rightarrow> Inl e
      | Inr u \<Rightarrow>
          (case partition_runs num_runs of
             Inl e \<Rightarrow> Inl e
           | Inr (n_jobs, chunks) \<Rightarrow>
               (case parallel_map train_chunk chunks of
                  Inl e \<Rightarrow> Inl e
                | Inr losses \<Rightarrow> Inr (concat (map fst losses), concat (map snd losses)))))"

definition dkt_memoize_models :: "int \<Rightarrow> (int \<times> int \<Rightarrow> error + unit) \<Rightarrow> error + unit list" where
  "dkt_memoize_models num_runs memoize_chunk =
     (case partition_runs num_runs of
        Inl e \<Rightarrow> Inl e
      | Inr (n_jobs, chunks) \<Rightarrow> parallel_map memoize_chunk chunks)"

text \<open>
  \<open>dkt_train_models\<close> of \<open>mcts_tests.py\<close>: the same opening, then
  \<open>params.saved_epochs[-1]\<close>, then the runs in sequence; \<open>train_run\<close> is the body of
  the loop over the runs.
\<close>

definition dkt_train_models_mcts_tests ::
  "error + unit \<Rightarrow> int \<Rightarrow> int list \<Rightarrow> (int \<Rightarrow> error + (real list \<times> real list))
     \<Rightarrow> error + (real list list \<times> real list list)" where
  "dkt_train_models_mcts_tests makedirs_outcome num_runs saved_epochs train_run =
     (case try_makedirs makedirs_outcome of
        Inl e \<Rightarrow> Inl e
      | Inr u \<Rightarrow>
          if saved_epochs = [] then Inl IndexError
          else
            (case parallel_map train_run (map int [0..<nat num_runs]) of
               Inl e \<Rightarrow> Inl e
             | Inr losses \<Rightarrow> Inr (map fst losses, map snd losses)))"

section \<open>Properties of the orchestration\<close>

lemma concat_chunks_nat:
  "concat (map (\<lambda>k. map (\<lambda>offset. k * r + offset) [0..<r]) [0..<m]) = [0..<m * r]"
proof (induction m)
  case 0
  then show ?case by simp
next
  case (Suc m)
  have a: "map (\<lambda>offset. m * r + offset) [0..<r] = [m * r..<m * r + r]"
    using map_add_upt [of "m * r" r] by (simp add: add.commute)
  have b: "[0..<m * r] @ [m * r..<m * r + r] = [0..<m * r + r]"
    using upt_add_eq_append [of 0 "m * r" r] by simp
  have "concat (map (\<lambda>k. map (\<lambda>offset. k * r + offset) [0..<r]) [0..<Suc m])
      = [0..<m * r] @ [m * r..<m * r + r]"
    using Suc a by simp
  also have "\<dots> = [0..<Suc m * r]"
    using b by (simp add: add.commute)
  finally show ?case .
qed

lemma py_range_chunks:
  assumes "0 < r"
  shows "py_range 0 (int (m * r)) (int r) = Inr (map (\<lambda>k. int k * int r) [0..<m])"
proof -
  have q: "(int m * int r + (int r - 1)) div int r = int m"
    using assms by (subst div_mult_self3) simp_all
  have e: "int (m * r) - 0 + int r - 1 = int m * int r + (int r - 1)"
    by simp
  have "(int (m * r) - 0 + int r - 1) div int r = int m"
    by (simp only: e q)
  then have "nat ((int (m * r) - 0 + int r - 1) div int r) = m"
    by (simp only: nat_int)
  then show ?thesis using assms unfolding py_range_def by simp
qed

lemma partition_runs_nat:
  assumes "0 < m" and "0 < r" and "min 5 (int (m * r)) = int m"
  shows "partition_runs (int (m * r)) = Inr (int m, map (\<lambda>k. (int k * int r, int r)) [0..<m])"
proof -
  have d: "int (m * r) div int m = int r" using assms(1) by simp
  have md: "int (m * r) mod int m = 0" by simp
  show ?thesis
    unfolding partition_runs_def Let_def assms(3) d md
    using assms(1) py_range_chunks [OF assms(2), of m]
    by (simp add: comp_def)
qed


lemma concat_chunk_runs:
  "concat (map chunk_runs (map (\<lambda>k. (int k * int r, int r)) [0..<m])) = map int [0..<m * r]"
proof -
  have "concat (map chunk_runs (map (\<lambda>k. (int k * int r, int r)) [0..<m]))
      = concat (map (\<lambda>k. map int (map (\<lambda>offset. k * r + offset) [0..<r])) [0..<m])"
    by (simp add: chunk_runs_def comp_def)
  also have "\<dots> = map int (concat (map (\<lambda>k. map (\<lambda>offset. k * r + offset) [0..<r]) [0..<m]))"
    by (simp add: map_concat comp_def)
  also have "\<dots> = map int [0..<m * r]"
    by (simp only: concat_chunks_nat)
  finally show ?thesis .
qed

lemma partition_runs_divisible:
  assumes "1 \<le> num_runs" and "num_runs mod min 5 num_runs = 0"
  shows "partition_runs num_runs
     = Inr (min 5 num_runs,
            map (\<lambda>k. (int k * (num_runs div min 5 num_runs), num_runs div min 5 num_runs))
              [0..<nat (min 5 num_runs)])
     \<and> nat (min 5 num_runs) * nat (num_runs div min 5 num_runs) = nat num_runs
     \<and> 0 < num_runs div min 5 num_runs"
proof -
  define m where "m = nat (min 5 num_runs)"
  define r where "r = nat (num_runs div min 5 num_runs)"
  have mpos: "0 < m" using assms(1) by (simp add: m_def)
  have im: "int m = min 5 num_runs" using assms(1) by (simp add: m_def)
  have dvd: "min 5 num_runs dvd num_runs" using assms(2) by (simp add: dvd_eq_mod_eq_0)
  have qpos: "0 < num_runs div min 5 num_runs"
    using assms(1) dvd by (simp add: pos_imp_zdiv_pos_iff zdvd_imp_le)
  have ir: "int r = num_runs div min 5 num_runs" using qpos by (simp add: r_def)
  have rpos: "0 < r" using qpos by (simp add: r_def)
  have prod: "int (m * r) = num_runs"
    using dvd by (simp add: im ir)
  have "partition_runs (int (m * r)) = Inr (int m, map (\<lambda>k. (int k * int r, int r)) [0..<m])"
    using mpos rpos by (rule partition_runs_nat) (simp only: prod im)
  then have "partition_runs num_runs
     = Inr (min 5 num_runs,
            map (\<lambda>k. (int k * (num_runs div min 5 num_runs), num_runs div min 5 num_runs))
              [0..<nat (min 5 num_runs)])"
    by (simp only: prod im ir) (simp add: m_def)
  moreover have "m * r = nat num_runs" using prod by linarith
  ultimately show ?thesis using qpos by (simp add: m_def r_def)
qed

text \<open>
  C8, as stated, leaves two outcomes for every \<open>num_runs\<close>: an assertion error or a
  partition into \<open>n_jobs\<close> chunks. With \<open>num_runs = 0\<close> the worker count
  \<open>min(5, 0)\<close> is \<open>0\<close> and \<open>params.num_runs % n_jobs\<close> raises
  \<open>ZeroDivisionError\<close> before the assertion is evaluated, in both functions.
\<close>

theorem partition_runs_zero_counterexample:
  "partition_runs 0 = Inl ZeroDivisionError
   \<and> dkt_memoize_models 0 (\<lambda>c. Inr ()) = Inl ZeroDivisionError
   \<and> dkt_train_models (Inr ()) 0 (\<lambda>c. Inr ([], [])) = Inl ZeroDivisionError"
  by (simp add: partition_runs_def dkt_memoize_models_def dkt_train_models_def try_makedirs_def)

text \<open>
  C8 (amended): parallel-partition precondition. For every \<open>num_runs \<ge> 1\<close>,
  \<open>dkt_train_models\<close> and \<open>dkt_memoize_models\<close> compute the worker count
  \<open>n_jobs = min(5, num_runs)\<close> and fail with an assertion error, rather than rounding
  or skipping runs, whenever \<open>num_runs\<close> is not divisible by \<open>n_jobs\<close>; when it is,
  the runs are partitioned into exactly \<open>n_jobs\<close> chunks, the \<open>k\<close>-th starting at
  \<open>k * (num_runs / n_jobs)\<close> and holding \<open>num_runs / n_jobs\<close> runs, and the chunks
  in order enumerate the run indices \<open>0, ..., num_runs - 1\<close>, each once. These chunks
  are what the two functions hand to their workers.
\<close>

theorem partition_runs_precondition:
  assumes "1 \<le> num_runs"
  shows "(num_runs mod min 5 num_runs \<noteq> 0 \<longrightarrow>
            partition_runs num_runs = Inl AssertionError
          \<and> dkt_train_models makedirs_outcome num_runs train_chunk = Inl AssertionError
          \<and> dkt_memoize_models num_runs memoize_chunk = Inl AssertionError)
       \<and> (num_runs mod min 5 num_runs = 0 \<longrightarrow>
            (\<exists>chunks.
                partition_runs num_runs = Inr (min 5 num_runs, chunks)
              \<and> int (length chunks) = min 5 num_runs
              \<and> (\<forall>k < length chunks.
                    chunks ! k = (int k * (num_runs div min 5 num_runs),
                                  num_runs div min 5 num_runs))
              \<and> concat (map chunk_runs chunks) = map int [0..<nat num_runs]
              \<and> dkt_memoize_models num_runs memoize_chunk = parallel_map memoize_chunk chunks
              \<and> dkt_train_models makedirs_outcome num_runs train_chunk
                  = (case parallel_map train_chunk chunks of
                       Inl e \<Rightarrow> Inl e
                     | Inr losses \<Rightarrow> Inr (concat (map fst losses), concat (map snd losses)))))"
proof (intro conjI impI)
  assume nd: "num_runs mod min 5 num_runs \<noteq> 0"
  have nz: "min 5 num_runs \<noteq> 0" using assms by simp
  show a: "partition_runs num_runs = Inl AssertionError"
    using nd nz by (simp add: partition_runs_def Let_def)
  show "dkt_train_models makedirs_outcome num_runs train_chunk = Inl AssertionError"
    using a by (simp add: dkt_train_models_def try_makedirs_def split: sum.splits)
  show "dkt_memoize_models num_runs memoize_chunk = Inl AssertionError"
    using a by (simp add: dkt_memoize_models_def)
next
  assume d: "num_runs mod min 5 num_runs = 0"
  let ?q = "num_runs div min 5 num_runs"
  let ?chunks = "map (\<lambda>k. (int k * ?q, ?q)) [0..<nat (min 5 num_runs)]"
  from partition_runs_divisible [OF assms d]
  have p: "partition_runs num_runs = Inr (min 5 num_runs, ?chunks)"
    and prod: "nat (min 5 num_runs) * nat ?q = nat num_runs"
    and qpos: "0 < ?q"
    by simp_all
  have len: "int (length ?chunks) = min 5 num_runs" using assms by simp
  have nth: "\<forall>k < length ?chunks. ?chunks ! k = (int k * ?q, ?q)" by simp
  have "concat (map chunk_runs (map (\<lambda>k. (int k * int (nat ?q), int (nat ?q)))
            [0..<nat (min 5 num_runs)])) = map int [0..<nat (min 5 num_runs) * nat ?q]"
    by (rule concat_chunk_runs)
  then have cover: "concat (map chunk_runs ?chunks) = map int [0..<nat num_runs]"
    using qpos prod by simp
  have mem: "dkt_memoize_models num_runs memoize_chunk = parallel_map memoize_chunk ?chunks"
    using p by (simp add: dkt_memoize_models_def)
  have tr: "dkt_train_models makedirs_outcome num_runs train_chunk
      = (case parallel_map train_chunk ?chunks of
           Inl e \<Rightarrow> Inl e
         | Inr losses \<Rightarrow> Inr (concat (map fst losses), concat (map snd losses)))"
    using p by (simp add: dkt_train_models_def try_makedirs_def split: sum.splits)
  from p len nth cover mem tr
  show "\<exists>chunks.
      partition_runs num_runs = Inr (min 5 num_runs, chunks)
    \<and> int (length chunks) = min 5 num_runs
    \<and> (\<forall>k < length chunks. chunks ! k = (int k * ?q, ?q))
    \<and> concat (map chunk_runs chunks) = map int [0..<nat num_runs]
    \<and> dkt_memoize_models num_runs memoize_chunk = parallel_map memoize_chunk chunks
    \<and> dkt_train_models makedirs_outcome num_runs train_chunk
        = (case parallel_map train_chunk chunks of
             Inl e \<Rightarrow> Inl e
           | Inr losses \<Rightarrow> Inr (concat (map fst losses), concat (map snd losses)))"
    by blast
qed

theorem partition_runs_precondition_witness:
  "partition_runs 10 = Inr (5, [(0, 2), (2, 2), (4, 2), (6, 2), (8, 2)])
   \<and> concat (map chunk_runs [(0, 2), (2, 2), (4, 2), (6, 2), (8, 2)])
       = [0, 1, 2, 3, 4, 5, 6, 7, 8, 9]
   \<and> partition_runs 7 = Inl AssertionError"
proof -
  have a: "(1::int) \<le> 10" and b: "(1::int) \<le> 7" by simp_all
  have l: "[0..<5] = [0, 1, 2, 3, 4]" "[0..<2] = [0, 1]"
    by (simp_all add: upt_rec)
  have "partition_runs 10 = Inr (5, [(0, 2), (2, 2), (4, 2), (6, 2), (8, 2)])"
    by (simp add: partition_runs_def py_range_def l)
  moreover have "concat (map chunk_runs [(0, 2), (2, 2), (4, 2), (6, 2), (8, 2)])
       = [0, 1, 2, 3, 4, 5, 6, 7, 8, 9]"
    by (simp add: chunk_runs_def l)
  moreover have "partition_runs 7 = Inl AssertionError"
    using partition_runs_precondition [OF b, of "Inr ()" "\<lambda>c. Inr ([], [])" "\<lambda>c. Inr ()"]
    by simp
  moreover note partition_runs_precondition [OF a, of "Inr ()" "\<lambda>c. Inr ([], [])" "\<lambda>c. Inr ()"]
  ultimately show ?thesis by simp
qed

text \<open>
  C7: directory-creation error handling. The claim holds for the failure caused by an
  existing directory, which is swallowed. It fails for every other failure: the handler
  is a bare \<open>except\<close>, so a permission error or an invalid path is swallowed as well
  and the run goes on as if the directory had been created, in both copies of
  \<open>dkt_train_models\<close>. The comment of the handler, "do nothing if already exists",
  states the narrower intent.
\<close>

theorem dkt_train_models_swallows_every_makedirs_failure:
  "try_makedirs (Inl (OSError FileExists)) = Inr ()
   \<and> try_makedirs (Inl (OSError PermissionDenied)) = Inr ()
   \<and> try_makedirs (Inl (OSError InvalidPath)) = Inr ()
   \<and> dkt_train_models (Inl e) num_runs train_chunk
       = dkt_train_models (Inr ()) num_runs train_chunk
   \<and> dkt_train_models_mcts_tests (Inl e) num_runs saved_epochs train_run
       = dkt_train_models_mcts_tests (Inr ()) num_runs saved_epochs train_run
   \<and> dkt_train_models (Inl (OSError PermissionDenied)) 1 (\<lambda>c. Inr ([[1]], [[2]]))
       = Inr ([[1]], [[2]])"
  by (simp add: try_makedirs_def dkt_train_models_def dkt_train_models_mcts_tests_def
      partition_runs_def py_range_def)

section \<open>Double-precision arithmetic\<close>

text \<open>
  The accumulators of \<open>test_dkt_chunk\<close> and the array that \<open>test_dkt\<close> sums are
  IEEE 754 double-precision numbers (Python's \<open>float\<close>, numpy's \<open>float64\<close>): every
  addition and division rounds its exact result to the nearest double, ties going to the
  even significand. A double has a significand of 53 bits and a unit in the last place
  that is a power of two not below \<open>2 ^ -1074\<close>; \<open>ulp_exponent x\<close> is the exponent of
  that unit for the doubles around \<open>x\<close> (the bit length of \<open>\<lfloor>\<bar>x\<bar> * 2 ^ 1074\<rfloor>\<close> is
  \<open>\<lfloor>log\<^sub>2 \<bar>x\<bar>\<rfloor> + 1075\<close>), \<open>round_half_even\<close> rounds to the nearest integer, and
  \<open>round_double\<close> rounds a real to the nearest multiple of the unit.
\<close>

definition ulp_exponent :: "real \<Rightarrow> int" where
  "ulp_exponent x = max (bitlen \<lfloor>\<bar>x\<bar> * 2 ^ 1074\<rfloor> - 1127) (- 1074)"

definition round_half_even :: "real \<Rightarrow> int" where
  "round_half_even y =
     (let f = \<lfloor>y\<rfloor>; d = y - of_int f
      in if d < 1 / 2 then f else if 1 / 2 < d then f + 1 else if even f then f else f + 1)"

definition round_double :: "real \<Rightarrow> real" where
  "round_double x =
     (let e = ulp_exponent x in of_int (round_half_even (x / 2 powi e)) * 2 powi e)"

text \<open>
  A double is a finite number, an infinity or \<open>nan\<close>. A rounded result of magnitude
  \<open>2 ^ 1024\<close> or more overflows to an infinity; numpy and Python raise no exception on
  that. The two zeros of IEEE arithmetic are one value here: their sign shows only when
  something is divided by a negative zero, which the functions below never do.
\<close>

datatype double = Finite real | PosInf | NegInf | NaN

definition double_of_real :: "real \<Rightarrow> double" where
  "double_of_real x =
     (let r = round_double x
      in if 2 ^ 1024 \<le> r then PosInf else if r \<le> - (2 ^ 1024) then NegInf else Finite r)"

text \<open>
  Addition. An infinity absorbs every finite number, two infinities of opposite sign give
  \<open>nan\<close>, and \<open>nan\<close> propagates.
\<close>

fun double_add :: "double \<Rightarrow> double \<Rightarrow> double" where
  "double_add (Finite a) (Finite b) = double_of_real (a + b)"
| "double_add (Finite a) y = y"
| "double_add NaN y = NaN"
| "double_add x NaN = NaN"
| "double_add PosInf NegInf = NaN"
| "double_add NegInf PosInf = NaN"
| "double_add x y = x"


section \<open>test\_dkt: chunks of trajectories and their reduction\<close>











text \<open>
  A real is representable when it is a double: rounding leaves it as it is and it is
  below the overflow threshold. \<open>all_runs_exact xs\<close> says that the sum of every
  contiguous run of \<open>xs\<close> is representable: then no addition of the accumulation
  rounds, in whatever chunks the list is cut.
\<close>

definition representable :: "real \<Rightarrow> bool" where
  "representable x \<longleftrightarrow> round_double x = x \<and> \<bar>x\<bar> < 2 ^ 1024"




section \<open>Properties of the double-precision arithmetic\<close>
















lemma abs_less_bounds:
  fixes x B :: real
  shows "\<bar>x\<bar> < B \<Longrightarrow> \<not> B \<le> x \<and> \<not> x \<le> - B"
  by auto

lemma double_of_real_exact:
  assumes "representable x"
  shows "double_of_real x = Finite x"
proof -
  have r: "round_double x = x" and b: "\<bar>x\<bar> < 2 ^ 1024"
    using assms by (simp_all only: representable_def)
  from abs_less_bounds [OF b] show ?thesis
    by (simp only: double_of_real_def Let_def r if_False)
qed

lemma double_add_exact:
  "representable (a + b) \<Longrightarrow> double_add (Finite a) (Finite b) = Finite (a + b)"
  by (simp add: double_of_real_exact)




section \<open>Properties of the reduction\<close>






















section \<open>dkt\_multistep\_single and the constructor of Student2\<close>

text \<open>
  \<open>Student2.__init__(self, n_concepts)\<close> takes one argument besides \<open>self\<close>: a call
  with any other number of positional arguments raises \<open>TypeError\<close> before the body
  runs. The body builds two zero vectors of length \<open>n_concepts\<close>; \<open>np.zeros\<close> raises
  \<open>ValueError\<close> on a negative length.
\<close>

definition Student2_init :: "pyval list \<Rightarrow> error + student2" where
  "Student2_init args =
     (case args of
        [n_concepts] \<Rightarrow>
          (if py_int n_concepts < 0 then Inl ValueError
           else Inr \<lparr>knowledge2 = replicate (nat (py_int n_concepts)) 0,
                     visited = replicate (nat (py_int n_concepts)) 0\<rparr>)
      | _ \<Rightarrow> Inl TypeError)"

text \<open>
  The loop over the checkpoints at the head of \<open>dkt_multistep_single\<close>; \<open>load\<close>
  stands for building a model and loading a checkpoint, or for reading memoized arrays
  when \<open>use_mem\<close> is set. A failed load raises.
\<close>

fun load_models :: "('c \<Rightarrow> error + 'm) \<Rightarrow> 'c list \<Rightarrow> error + 'm list" where
  "load_models load [] = Inr []"
| "load_models load (chkpt # rest) =
     (case load chkpt of
        Inl e \<Rightarrow> Inl e
      | Inr model \<Rightarrow>
          (case load_models load rest of Inl e \<Rightarrow> Inl e | Inr models \<Rightarrow> Inr (model # models)))"

text \<open>
  \<open>dkt_multistep_single\<close>: the models are loaded, the default concept tree is built,
  and line 257 calls \<open>st.Student2(n_concepts, True)\<close>. Everything after that line
  (sampling trajectories with the data generator, advancing the model, accumulating the
  squared errors and dividing by \<open>n_trajectories\<close>) uses modules outside the sources at
  hand and is the parameter \<open>measure_errors\<close>.
\<close>

definition dkt_multistep_single ::
  "int \<Rightarrow> nat \<Rightarrow> ('c \<Rightarrow> error + 'm) \<Rightarrow> 'c list \<Rightarrow> nat
     \<Rightarrow> ('m list \<Rightarrow> student2 \<Rightarrow> nat \<Rightarrow> nat \<Rightarrow> error + real list list) \<Rightarrow> error + real list list" where
  "dkt_multistep_single n_concepts n_trajectories load checkpoints horizon measure_errors =
     (case load_models load checkpoints of
        Inl e \<Rightarrow> Inl e
      | Inr model_list \<Rightarrow>
          (case Student2_init [PyInt n_concepts, PyBool True] of
             Inl e \<Rightarrow> Inl e
           | Inr test_student \<Rightarrow> measure_errors model_list test_student n_trajectories horizon))"

text \<open>
  C9: the claim describes what \<open>dkt_multistep_single\<close> is written to do. On the code
  it does not get there: the call \<open>st.Student2(n_concepts, True)\<close> passes two
  arguments to a constructor that takes one, so whenever the models load the function
  raises \<open>TypeError\<close>, before any trajectory is sampled and whatever the rest of the
  function would compute. The other callers (\<open>mcts_tests.py\<close>, lines 188, 327 and 446)
  pass the one argument.
\<close>

theorem dkt_multistep_single_raises_TypeError:
  "dkt_multistep_single n_concepts n_trajectories load checkpoints horizon measure_errors
     = (case load_models load checkpoints of Inl e \<Rightarrow> Inl e | Inr model_list \<Rightarrow> Inl TypeError)
   \<and> Student2_init [PyInt n_concepts, PyBool True] = Inl TypeError
   \<and> Student2_init [PyInt 4]
       = Inr \<lparr>knowledge2 = [0, 0, 0, 0], visited = [0, 0, 0, 0]\<rparr>
   \<and> dkt_multistep_single 4 1 (\<lambda>c. Inr c) [0 :: nat] 6 (\<lambda>ms s n h. Inr [[0], [0]])
       = Inl TypeError"
  by (simp add: dkt_multistep_single_def Student2_init_def numeral_eq_Suc split: sum.splits)

section \<open>test\_student\_exact and the name sparse\_r\<close>

text \<open>
  Python looks a name up when the expression holding it is evaluated: among the local
  names of the function, then among the globals of the module, then among the builtins,
  and raises \<open>NameError\<close> when it is bound nowhere.
\<close>

datatype pyobj = ObjInt int | ObjBool bool | ObjFloat real | ObjOpaque string

type_synonym namespace = "string \<Rightarrow> pyobj option"

definition lookup_name :: "namespace \<Rightarrow> namespace \<Rightarrow> string \<Rightarrow> error + pyobj" where
  "lookup_name locals globals x =
     (case locals x of
        Some v \<Rightarrow> Inr v
      | None \<Rightarrow> (case globals x of Some v \<Rightarrow> Inr v | None \<Rightarrow> Inl (NameError x)))"

fun lookup_all :: "namespace \<Rightarrow> namespace \<Rightarrow> string list \<Rightarrow> error + pyobj list" where
  "lookup_all locals globals [] = Inr []"
| "lookup_all locals globals (x # xs) =
     (case lookup_name locals globals x of
        Inl e \<Rightarrow> Inl e
      | Inr v \<Rightarrow>
          (case lookup_all locals globals xs of Inl e \<Rightarrow> Inl e | Inr vs \<Rightarrow> Inr (v # vs)))"

text \<open>
  The global names of \<open>mcts_tests.py\<close>. The module binds names in three ways: by
  \<open>import\<close> and \<open>from ... import name\<close>, by \<open>def\<close> and \<open>class\<close>, and by three
  star imports (\<open>mctslib.graph\<close>, \<open>mctslib.mcts\<close>, \<open>helpers\<close>) at lines 33 to 36,
  whose modules are outside the sources at hand. What the star imports bind is the
  parameter \<open>star\<close>. A star import rebinds a name bound before it (the imports of lines
  10 to 31) and is rebound by a binding after it (everything from line 37 on).
\<close>

definition mcts_tests_early_names :: "string list" where
  "mcts_tests_early_names =
     [''np'', ''sp'', ''tf'', ''tflearn'', ''time'', ''copy'', ''pickle'', ''mp'', ''six'', ''os'',
      ''constants'', ''dg'', ''cdg'', ''st'', ''exer'', ''dmc'', ''dataset_utils'',
      ''SimpleMDP'', ''Parallel'', ''delayed'']"

definition mcts_tests_late_names :: "string list" where
  "mcts_tests_late_names =
     [''create_custom_dependency'', ''tree_policies'', ''default_policies'', ''backups'',
      ''MCTS'', ''ExactGreedyPolicy'', ''DKTGreedyPolicy'', ''ActionNode'', ''StateNode'',
      ''DKTState'', ''StudentExactState'', ''DENSE'', ''SEMISPARSE'', ''SPARSE'',
      ''debug_visiter'', ''test_student_exact_single'', ''test_student_exact_single_greedy'',
      ''test_student_exact_chunk'', ''test_student_exact'', ''test_dkt_single'',
      ''test_dkt_single_greedy'', ''test_dkt_chunk'', ''test_dkt'', ''ExtractCallback'',
      ''staggered_dkt_training'', ''test_dkt_early_stopping'', ''dkt_test_policy'',
      ''dkt_train_models'', ''dkt_test_models_mcts'', ''dkt_test_models_policy'',
      ''starttime'', ''TrainParams'', ''TestParams'', ''endtime'']"

text \<open>The builtins the module calls; no builtin of Python is named \<open>sparse_r\<close>.\<close>

definition py_builtin_names :: "string list" where
  "py_builtin_names =
     [''range'', ''xrange'', ''sum'', ''print'', ''str'', ''id'', ''isinstance'', ''list'',
      ''int'', ''len'', ''min'', ''open'']"

definition module_globals :: "(string \<Rightarrow> pyobj) \<Rightarrow> namespace \<Rightarrow> namespace" where
  "module_globals own star x =
     (if x \<in> set mcts_tests_late_names then Some (own x)
      else
        (case star x of
           Some v \<Rightarrow> Some v
         | None \<Rightarrow>
             if x \<in> set mcts_tests_early_names \<or> x \<in> set py_builtin_names then Some (own x)
             else None))"

text \<open>
  Lines 170 to 189 of \<open>test_student_exact\<close>: the local names and what they hold. Only
  \<open>r_type\<close> depends on a global, \<open>DENSE\<close>.
\<close>

definition test_student_exact_bindings :: "pyobj \<Rightarrow> namespace" where
  "test_student_exact_bindings dense =
     [''cdg'' \<mapsto> ObjOpaque ''concept_dependency_graph'',
      ''create_custom_dependency'' \<mapsto> ObjOpaque ''create_custom_dependency'',
      ''use_greedy'' \<mapsto> ObjBool False,
      ''r_type'' \<mapsto> dense,
      ''n_concepts'' \<mapsto> ObjInt 4,
      ''learn_prob'' \<mapsto> ObjFloat (1 / 2),
      ''horizon'' \<mapsto> ObjInt 6,
      ''n_rollouts'' \<mapsto> ObjInt 50,
      ''n_trajectories'' \<mapsto> ObjInt 100,
      ''n_jobs'' \<mapsto> ObjInt 8,
      ''traj_per_job'' \<mapsto> ObjInt (100 div 8),
      ''dgraph'' \<mapsto> ObjOpaque ''ConceptDependencyGraph'',
      ''student2'' \<mapsto> ObjOpaque ''Student2'',
      ''test_student'' \<mapsto> ObjOpaque ''Student2'']"

definition test_student_exact_locals :: "namespace \<Rightarrow> error + namespace" where
  "test_student_exact_locals globals =
     (case lookup_name Map.empty globals ''DENSE'' of
        Inl e \<Rightarrow> Inl e
      | Inr dense \<Rightarrow>
          (case lookup_name Map.empty globals ''st'' of
             Inl e \<Rightarrow> Inl e
           | Inr st \<Rightarrow> Inr (test_student_exact_bindings dense)))"

text \<open>
  Line 191: \<open>Parallel(n_jobs=n_jobs)(... for _ in range(n_jobs))\<close>. For each job the
  generator evaluates \<open>delayed(test_student_exact_chunk)\<close> and then the seven argument
  expressions, all of them names, from left to right; the last is \<open>sparse_r\<close>. The
  worker is the parameter \<open>run_chunk\<close>, applied to the seven argument values. Line 192
  divides the sum of the results by \<open>n_jobs * traj_per_job\<close>; the lines after it only
  print.
\<close>

definition chunk_call_names :: "string list" where
  "chunk_call_names =
     [''delayed'', ''test_student_exact_chunk'', ''traj_per_job'', ''dgraph'', ''test_student'',
      ''horizon'', ''n_rollouts'', ''use_greedy'', ''sparse_r'']"

definition test_student_exact ::
  "(string \<Rightarrow> pyobj) \<Rightarrow> namespace \<Rightarrow> (pyobj list \<Rightarrow> error + real) \<Rightarrow> error + real" where
  "test_student_exact own star run_chunk =
     (let globals = module_globals own star in
      case test_student_exact_locals globals of
        Inl e \<Rightarrow> Inl e
      | Inr locals \<Rightarrow>
          (case lookup_all locals globals [''Parallel'', ''n_jobs'', ''range'', ''n_jobs''] of
             Inl e \<Rightarrow> Inl e
           | Inr u \<Rightarrow>
               (case parallel_map
                       (\<lambda>job. case lookup_all locals globals chunk_call_names of
                                 Inl e \<Rightarrow> Inl e
                               | Inr vs \<Rightarrow> run_chunk (drop 2 vs))
                       [0..<8 :: nat] of
                  Inl e \<Rightarrow> Inl e
                | Inr accs \<Rightarrow> Inr (sum_list accs / (8 * 12)))))"

lemma sparse_r_not_defined:
  "''sparse_r'' \<notin> set mcts_tests_early_names \<union> set mcts_tests_late_names \<union> set py_builtin_names"
  by (simp add: mcts_tests_early_names_def mcts_tests_late_names_def py_builtin_names_def)

lemma module_globals_defined:
  "module_globals own star ''DENSE'' = Some (own ''DENSE'')"
  "\<exists>v. module_globals own star ''st'' = Some v"
  "\<exists>v. module_globals own star ''Parallel'' = Some v"
  "\<exists>v. module_globals own star ''range'' = Some v"
  "\<exists>v. module_globals own star ''delayed'' = Some v"
  "module_globals own star ''test_student_exact_chunk'' = Some (own ''test_student_exact_chunk'')"
  "module_globals own star ''sparse_r'' = star ''sparse_r''"
  by (simp_all add: module_globals_def mcts_tests_early_names_def mcts_tests_late_names_def
      py_builtin_names_def split: option.splits)



lemma module_globals_other:
  assumes "x \<noteq> ''DENSE''"
  shows "module_globals (own(''DENSE'' := v)) star x = module_globals own star x"
proof -
  have "(own(''DENSE'' := v)) x = own x" using assms by (rule fun_upd_other)
  then show ?thesis unfolding module_globals_def by (simp only:)
qed

lemma lookup_name_cong:
  "l1 x = l2 x \<Longrightarrow> g1 x = g2 x \<Longrightarrow> lookup_name l1 g1 x = lookup_name l2 g2 x"
  by (simp add: lookup_name_def split: option.splits)

lemma lookup_all_cong:
  "(\<And>x. x \<in> set xs \<Longrightarrow> l1 x = l2 x \<and> g1 x = g2 x)
   \<Longrightarrow> lookup_all l1 g1 xs = lookup_all l2 g2 xs"
proof (induction xs)
  case Nil
  then show ?case by simp
next
  case (Cons a xs)
  have h: "lookup_name l1 g1 a = lookup_name l2 g2 a"
    using Cons.prems [of a] by (intro lookup_name_cong) simp_all
  have t: "lookup_all l1 g1 xs = lookup_all l2 g2 xs"
    using Cons.prems by (intro Cons.IH) simp
  show ?case by (simp only: lookup_all.simps h t)
qed


lemma test_student_exact_locals_eq:
  "test_student_exact_locals (module_globals own star)
     = Inr (test_student_exact_bindings (own ''DENSE''))"
proof -
  obtain st where st: "module_globals own star ''st'' = Some st"
    using module_globals_defined(2) by blast
  show ?thesis
    using st module_globals_defined(1) [of own star]
    by (simp add: test_student_exact_locals_def lookup_name_def)
qed

lemma bindings_values:
  "test_student_exact_bindings dense ''sparse_r'' = None"
  "test_student_exact_bindings dense ''Parallel'' = None"
  "test_student_exact_bindings dense ''range'' = None"
  "test_student_exact_bindings dense ''delayed'' = None"
  "test_student_exact_bindings dense ''test_student_exact_chunk'' = None"
  "test_student_exact_bindings dense ''n_jobs'' = Some (ObjInt 8)"
  "test_student_exact_bindings dense ''traj_per_job'' = Some (ObjInt 12)"
  "test_student_exact_bindings dense ''dgraph'' = Some (ObjOpaque ''ConceptDependencyGraph'')"
  "test_student_exact_bindings dense ''test_student'' = Some (ObjOpaque ''Student2'')"
  "test_student_exact_bindings dense ''horizon'' = Some (ObjInt 6)"
  "test_student_exact_bindings dense ''n_rollouts'' = Some (ObjInt 50)"
  "test_student_exact_bindings dense ''use_greedy'' = Some (ObjBool False)"
  by (simp_all add: test_student_exact_bindings_def)

lemma bindings_other:
  "x \<noteq> ''r_type'' \<Longrightarrow> test_student_exact_bindings a x = test_student_exact_bindings b x"
  by (simp add: test_student_exact_bindings_def)


lemma chunk_call_fails:
  assumes "star ''sparse_r'' = None"
  shows "lookup_all (test_student_exact_bindings dense) (module_globals own star) chunk_call_names
     = Inl (NameError ''sparse_r'')"
proof -
  obtain d where d: "module_globals own star ''delayed'' = Some d"
    using module_globals_defined(5) by blast
  have s: "module_globals own star ''sparse_r'' = None"
    using assms by (simp only: module_globals_defined(7))
  show ?thesis
    unfolding chunk_call_names_def
    by (simp add: lookup_name_def bindings_values d s module_globals_defined(6))
qed

lemma parallel_call_succeeds:
  "\<exists>u. lookup_all (test_student_exact_bindings dense) (module_globals own star)
          [''Parallel'', ''n_jobs'', ''range'', ''n_jobs''] = Inr u"
proof -
  obtain p r where g: "module_globals own star ''Parallel'' = Some p"
    "module_globals own star ''range'' = Some r"
    using module_globals_defined(3,4) by blast
  show ?thesis
    by (simp add: lookup_name_def bindings_values g)
qed

text \<open>
  C10: \<open>test_student_exact\<close> never forwards its reward type. The name \<open>sparse_r\<close>
  that line 191 passes is bound nowhere in \<open>mcts_tests.py\<close> nor among the builtins; so,
  unless a star import binds it, every invocation raises \<open>NameError\<close> on
  \<open>sparse_r\<close> at the first job, whatever the worker would do, and no trajectory runs.
  In every case the value of \<open>r_type\<close> (that of \<open>DENSE\<close>) has no effect on what the
  function does.
\<close>

theorem test_student_exact_undefined_name:
  "''sparse_r'' \<notin> set mcts_tests_early_names \<union> set mcts_tests_late_names \<union> set py_builtin_names
   \<and> (star ''sparse_r'' = None \<longrightarrow>
        test_student_exact own star run_chunk = Inl (NameError ''sparse_r''))
   \<and> test_student_exact (own(''DENSE'' := v)) star run_chunk
       = test_student_exact own star run_chunk"
proof (intro conjI impI)
  show "''sparse_r'' \<notin> set mcts_tests_early_names \<union> set mcts_tests_late_names \<union> set py_builtin_names"
    by (rule sparse_r_not_defined)
next
  assume none: "star ''sparse_r'' = None"
  obtain u where first: "lookup_all (test_student_exact_bindings (own ''DENSE''))
      (module_globals own star) [''Parallel'', ''n_jobs'', ''range'', ''n_jobs''] = Inr u"
    using parallel_call_succeeds by blast
  have upt: "[0..<8 :: nat] = 0 # [1..<8]"
    by (simp add: upt_rec)
  show "test_student_exact own star run_chunk = Inl (NameError ''sparse_r'')"
    unfolding test_student_exact_def Let_def test_student_exact_locals_eq upt
    by (simp only: first chunk_call_fails [of star "own ''DENSE''" own, OF none]
        sum.case parallel_map.simps)
next
  let ?own' = "own(''DENSE'' := v)"
  let ?g = "module_globals own star" and ?g' = "module_globals ?own' star"
  let ?l = "test_student_exact_bindings (own ''DENSE'')"
  let ?l' = "test_student_exact_bindings (?own' ''DENSE'')"
  have same: "?l' x = ?l x \<and> ?g' x = ?g x" if "x \<noteq> ''r_type''" "x \<noteq> ''DENSE''" for x
    using that bindings_other [of x "?own' ''DENSE''" "own ''DENSE''"]
      module_globals_other [of x own v star] by simp
  have a: "lookup_all ?l' ?g' [''Parallel'', ''n_jobs'', ''range'', ''n_jobs'']
      = lookup_all ?l ?g [''Parallel'', ''n_jobs'', ''range'', ''n_jobs'']"
  proof (rule lookup_all_cong)
    fix x assume "x \<in> set [''Parallel'', ''n_jobs'', ''range'', ''n_jobs'']"
    then have "x \<noteq> ''r_type''" "x \<noteq> ''DENSE''" by auto
    then show "?l' x = ?l x \<and> ?g' x = ?g x" by (rule same)
  qed
  have b: "lookup_all ?l' ?g' chunk_call_names = lookup_all ?l ?g chunk_call_names"
  proof (rule lookup_all_cong)
    fix x assume "x \<in> set chunk_call_names"
    then have "x \<noteq> ''r_type''" "x \<noteq> ''DENSE''" by (auto simp: chunk_call_names_def)
    then show "?l' x = ?l x \<and> ?g' x = ?g x" by (rule same)
  qed
  show "test_student_exact ?own' star run_chunk = test_student_exact own star run_chunk"
    unfolding test_student_exact_def Let_def test_student_exact_locals_eq
    by (simp only: sum.case a b)
qed

theorem test_student_exact_undefined_name_witness:
  "test_student_exact (\<lambda>x. ObjOpaque x) Map.empty (\<lambda>args. Inr 1) = Inl (NameError ''sparse_r'')"
  using test_student_exact_undefined_name [of Map.empty "\<lambda>x. ObjOpaque x" "\<lambda>args. Inr 1"]
  by simp

section \<open>dkt\_memoize\_single: the memoization tables\<close>

text \<open>
  Modelled from the spec: the helpers \<open>action_ob_encode\<close>, \<open>history_ix_append\<close> and
  \<open>num_histories\<close> reach \<open>model_training.py\<close> through \<open>from helpers import *\<close>, and
  the module \<open>helpers\<close> is missing from the sources; the spec gives them as
  \<open>action * 2 + observation\<close>, \<open>history_ix * (2 * n_concepts) + digit\<close> and
  \<open>base ^ length\<close>.
\<close>

definition action_ob_encode :: "nat \<Rightarrow> nat \<Rightarrow> nat \<Rightarrow> nat" where
  "action_ob_encode n_concepts action ob = action * 2 + ob"

definition history_ix_append :: "nat \<Rightarrow> nat \<Rightarrow> nat \<Rightarrow> nat" where
  "history_ix_append n_concepts history_ix digit = history_ix * (2 * n_concepts) + digit"

definition num_histories :: "nat \<Rightarrow> nat \<Rightarrow> nat" where
  "num_histories base len = base ^ len"

text \<open>
  A memoization table is a two-dimensional array; every row is paired here with the
  number of assignments it has received, a counter the program does not keep: it records
  how often a row was written and no branch below depends on it. \<open>np.zeros\<close> builds a
  table of zero rows, none of them written.
\<close>

type_synonym mem_table = "(real list \<times> nat) list"

definition np_zeros :: "nat \<Rightarrow> nat \<Rightarrow> mem_table" where
  "np_zeros rows cols = replicate rows (replicate cols 0, 0)"

text \<open>
  The assignment \<open>mem_arrays[step][next_history_ix,:] = v\<close>: an index outside the list
  or outside the table raises \<open>IndexError\<close>; a vector of the width of the table is
  stored, a vector of length one is broadcast over the row, any other shape raises
  \<open>ValueError\<close>.
\<close>

definition assign_row :: "mem_table list \<Rightarrow> nat \<Rightarrow> nat \<Rightarrow> real list \<Rightarrow> error + mem_table list" where
  "assign_row mem_arrays step ix v =
     (if step < length mem_arrays \<and> ix < length (mem_arrays ! step) then
        (let row = mem_arrays ! step ! ix in
         if length v = length (fst row) then
           Inr (mem_arrays[step := (mem_arrays ! step)[ix := (v, Suc (snd row))]])
         else if length v = 1 then
           Inr (mem_arrays[step := (mem_arrays ! step)
                  [ix := (replicate (length (fst row)) (hd v), Suc (snd row))]])
         else Inl ValueError)
      else Inl IndexError)"

text \<open>
  Line 161 evaluates \<open>st.make_student_action\<close>, an attribute of the module
  \<open>student\<close>, and calls it with two arguments. A Python object is taken here for what
  calling it with two integers does: it returns a value or raises. The attributes of the
  module are the names its top level binds. \<open>student.py\<close> binds the names of its
  imports (lines 23 to 27 and 31), whatever \<open>from constants import *\<close> brings (line
  30, a module outside the sources at hand: the parameter \<open>star\<close>), and its four
  classes; a star import rebinds a name bound before it and is rebound by a binding after
  it. Reading an attribute the module does not have raises \<open>AttributeError\<close>.
\<close>

type_synonym 'act pycallable = "nat \<Rightarrow> nat \<Rightarrow> error + 'act"

definition student_early_names :: "string list" where
  "student_early_names =
     [''__name__'', ''__doc__'', ''__file__'', ''__package__'', ''__builtins__'',
      ''absolute_import'', ''division'', ''print_function'', ''np'', ''defaultdict'', ''deque'',
      ''Counter'']"

definition student_late_names :: "string list" where
  "student_late_names = [''exer'', ''Student'', ''Student2'', ''StudentExactSim'', ''StudentAction'']"

definition student_module ::
  "(string \<Rightarrow> 'act pycallable) \<Rightarrow> (string \<Rightarrow> 'act pycallable option) \<Rightarrow> string
     \<Rightarrow> 'act pycallable option" where
  "student_module own star x =
     (if x \<in> set student_late_names then Some (own x)
      else
        (case star x of
           Some v \<Rightarrow> Some v
         | None \<Rightarrow> if x \<in> set student_early_names then Some (own x) else None))"

definition module_getattr :: "(string \<Rightarrow> 'v option) \<Rightarrow> string \<Rightarrow> error + 'v" where
  "module_getattr m x = (case m x of Some v \<Rightarrow> Inr v | None \<Rightarrow> Inl (AttributeError x))"

text \<open>
  \<open>dkt_memoize_single_recurse\<close>, with the module \<open>student\<close> as the parameter \<open>st\<close>.
  The simulator \<open>dkt\<close> is a value of any type; \<open>advance dkt action next_ob\<close> stands
  for \<open>next_dkt = dkt.copy()\<close> followed by \<open>next_dkt.advance_simulator(action, next_ob)\<close>,
  which leave \<open>dkt\<close> itself unchanged (the spec has \<open>copy()\<close> return an independent
  simulator), and \<open>sample_observations\<close> for the method of that name; the class of the
  simulator is missing from the sources. The argument \<open>st.make_student_action(n_concepts,
  next_action)\<close> is evaluated before the simulator advances, and so before the
  assignment of line 163. The tables are mutated in place by the program; the model
  passes them through the two loops and the recursive call, and an exception leaves both
  loops.
\<close>

function dkt_memoize_single_recurse ::
  "nat \<Rightarrow> (string \<Rightarrow> 'act pycallable option) \<Rightarrow> ('d \<Rightarrow> 'act \<Rightarrow> nat \<Rightarrow> 'd) \<Rightarrow> ('d \<Rightarrow> real list)
     \<Rightarrow> 'd \<Rightarrow> nat \<Rightarrow> nat \<Rightarrow> nat \<Rightarrow> mem_table list \<Rightarrow> error + mem_table list" where
  "dkt_memoize_single_recurse n_concepts st advance sample_observations dkt horizon step
       history_ix mem_arrays =
     (if step > horizon then Inr mem_arrays
      else
        fold (\<lambda>next_action.
          fold (\<lambda>next_ob acc.
            case acc of
              Inl e \<Rightarrow> Inl e
            | Inr mem \<Rightarrow>
                (let next_branch = action_ob_encode n_concepts next_action next_ob;
                     next_history_ix = history_ix_append n_concepts history_ix next_branch
                 in case module_getattr st ''make_student_action'' of
                      Inl e \<Rightarrow> Inl e
                    | Inr make_student_action \<Rightarrow>
                        (case make_student_action n_concepts next_action of
                           Inl e \<Rightarrow> Inl e
                         | Inr action \<Rightarrow>
                             (let next_dkt = advance dkt action next_ob
                              in case assign_row mem step next_history_ix
                                        (sample_observations next_dkt) of
                                   Inl e \<Rightarrow> Inl e
                                 | Inr mem' \<Rightarrow>
                                     dkt_memoize_single_recurse n_concepts st advance
                                       sample_observations next_dkt horizon (step + 1)
                                       next_history_ix mem'))))
            [0, 1])
          [0..<n_concepts] (Inr mem_arrays))"
  by pat_completeness auto
termination
  by (relation "measure (\<lambda>(n, st, adv, obs, dkt, horizon, step, ix, mem). horizon + 1 - step)") auto

declare dkt_memoize_single_recurse.simps [simp del]

text \<open>
  \<open>dkt_memoize_single\<close> after the model has been loaded: the \<open>horizon + 1\<close> tables
  are allocated and the recursion starts at step 1 with the history index 0. The result
  is the list of tables handed to \<open>np.savez\<close>; when the recursion raises, nothing is
  saved.
\<close>

definition alloc_mem_arrays :: "nat \<Rightarrow> nat \<Rightarrow> mem_table list" where
  "alloc_mem_arrays n_concepts horizon =
     (let index_base = n_concepts * 2
      in map (\<lambda>i. np_zeros (num_histories index_base i) n_concepts) [0..<horizon + 1])"

definition dkt_memoize_single ::
  "nat \<Rightarrow> (string \<Rightarrow> 'act pycallable option) \<Rightarrow> ('d \<Rightarrow> 'act \<Rightarrow> nat \<Rightarrow> 'd) \<Rightarrow> ('d \<Rightarrow> real list)
     \<Rightarrow> 'd \<Rightarrow> nat \<Rightarrow> error + mem_table list" where
  "dkt_memoize_single n_concepts st advance sample_observations dkt horizon =
     dkt_memoize_single_recurse n_concepts st advance sample_observations dkt horizon
       1 0 (alloc_mem_arrays n_concepts horizon)"

text \<open>
  The history of length \<open>k\<close> that an index stands for, read off its \<open>k\<close> digits in
  base \<open>2 * n_concepts\<close>, the index of a history, computed with the two helpers as the
  recursion does, and the simulator advanced along a history.
\<close>

fun history_of_ix :: "nat \<Rightarrow> nat \<Rightarrow> nat \<Rightarrow> (nat \<times> nat) list" where
  "history_of_ix n_concepts 0 ix = []"
| "history_of_ix n_concepts (Suc k) ix =
     history_of_ix n_concepts k (ix div (2 * n_concepts))
       @ [((ix mod (2 * n_concepts)) div 2, (ix mod (2 * n_concepts)) mod 2)]"

definition encode_history :: "nat \<Rightarrow> (nat \<times> nat) list \<Rightarrow> nat" where
  "encode_history n_concepts h =
     foldl (\<lambda>history_ix (a, ob).
              history_ix_append n_concepts history_ix (action_ob_encode n_concepts a ob)) 0 h"

definition dkt_at :: "('d \<Rightarrow> nat \<Rightarrow> nat \<Rightarrow> 'd) \<Rightarrow> 'd \<Rightarrow> (nat \<times> nat) list \<Rightarrow> 'd" where
  "dkt_at advance dkt h = foldl (\<lambda>d (a, ob). advance d a ob) dkt h"

section \<open>Properties of the memoization\<close>

text \<open>
  One pass of the inner loop body when \<open>make_student_action\<close> is bound and returns, for
  the digit \<open>d\<close> of the pair \<open>(d div 2, d mod 2)\<close>; \<open>adv\<close> is the simulator advanced
  by the action made. The two nested loops are one loop over the digits
  \<open>0, \<dots>, 2 * n_concepts - 1\<close>.
\<close>

definition memo_step ::
  "nat \<Rightarrow> (string \<Rightarrow> 'act pycallable option) \<Rightarrow> ('d \<Rightarrow> 'act \<Rightarrow> nat \<Rightarrow> 'd)
     \<Rightarrow> ('d \<Rightarrow> nat \<Rightarrow> nat \<Rightarrow> 'd) \<Rightarrow> ('d \<Rightarrow> real list) \<Rightarrow> 'd \<Rightarrow> nat \<Rightarrow> nat \<Rightarrow> nat \<Rightarrow> nat
     \<Rightarrow> error + mem_table list \<Rightarrow> error + mem_table list" where
  "memo_step n st advsim adv obs dkt horizon step h d acc =
     (case acc of
        Inl e \<Rightarrow> Inl e
      | Inr mem \<Rightarrow>
          (case assign_row mem step (h * (2 * n) + d) (obs (adv dkt (d div 2) (d mod 2))) of
             Inl e \<Rightarrow> Inl e
           | Inr mem' \<Rightarrow>
               dkt_memoize_single_recurse n st advsim obs (adv dkt (d div 2) (d mod 2)) horizon
                 (step + 1) (h * (2 * n) + d) mem'))"

lemma fold_actions_obs:
  "fold (\<lambda>a. fold (\<lambda>ob. F a ob) [0, 1]) [0..<n] acc
     = fold (\<lambda>d. F (d div 2) (d mod 2)) [0..<2 * n] acc"
proof (induction n arbitrary: acc)
  case 0
  then show ?case by simp
next
  case (Suc n)
  have "[0..<2 * Suc n] = [0..<2 * n] @ [2 * n, Suc (2 * n)]"
    by simp
  then show ?case
    using Suc by simp
qed

lemma recurse_unfold:
  assumes bound: "st ''make_student_action'' = Some mk"
    and made: "\<And>a. mk n a = Inr (act a)"
    and adv: "adv = (\<lambda>d a ob. advsim d (act a) ob)"
  shows "dkt_memoize_single_recurse n st advsim obs dkt horizon step h mem =
     (if step > horizon then Inr mem
      else fold (memo_step n st advsim adv obs dkt horizon step h) [0..<2 * n] (Inr mem))"
proof -
  have "d div 2 * 2 + d mod 2 = d" for d :: nat by simp
  then show ?thesis
    unfolding dkt_memoize_single_recurse.simps [of n st advsim obs dkt horizon step h mem]
      fold_actions_obs
    by (simp add: memo_step_def [abs_def] action_ob_encode_def history_ix_append_def Let_def
        module_getattr_def bound made adv cong: sum.case_cong)
qed

text \<open>
  The simulator advanced along the \<open>j\<close> digits of \<open>r\<close> in base \<open>B\<close>, the most
  significant first.
\<close>

fun dkt_run :: "('d \<Rightarrow> nat \<Rightarrow> nat \<Rightarrow> 'd) \<Rightarrow> nat \<Rightarrow> 'd \<Rightarrow> nat \<Rightarrow> nat \<Rightarrow> 'd" where
  "dkt_run adv B dkt 0 r = dkt"
| "dkt_run adv B dkt (Suc j) r =
     adv (dkt_run adv B dkt j (r div B)) ((r mod B) div 2) ((r mod B) mod 2)"

lemma dkt_run_history:
  "dkt_run adv (2 * n) dkt k ix = dkt_at adv dkt (history_of_ix n k ix)"
  by (induction k arbitrary: ix) (simp_all add: dkt_at_def)

lemma mod_power_div:
  fixes r B :: nat
  assumes "0 < B"
  shows "(r mod B ^ Suc j) div B = (r div B) mod B ^ j"
    and "(r mod B ^ Suc j) mod B = r mod B"
proof -
  show "(r mod B ^ Suc j) div B = (r div B) mod B ^ j"
    using assms by (simp add: mod_mult2_eq)
  show "(r mod B ^ Suc j) mod B = r mod B"
    by (simp add: mod_mod_cancel)
qed

lemma dkt_run_top:
  assumes "0 < B"
  shows "dkt_run adv B dkt (Suc j) r
     = dkt_run adv B (adv dkt (((r div B ^ j) mod B) div 2) (((r div B ^ j) mod B) mod 2)) j
         (r mod B ^ j)"
proof (induction j arbitrary: r)
  case 0
  show ?case by simp
next
  case (Suc j)
  have d: "(r div B) div B ^ j = r div B ^ Suc j"
    by (simp add: div_mult2_eq)
  have "dkt_run adv B dkt (Suc (Suc j)) r
      = adv (dkt_run adv B dkt (Suc j) (r div B)) ((r mod B) div 2) ((r mod B) mod 2)"
    by simp
  also have "\<dots> = adv (dkt_run adv B
        (adv dkt (((r div B ^ Suc j) mod B) div 2) (((r div B ^ Suc j) mod B) mod 2)) j
        ((r div B) mod B ^ j)) ((r mod B) div 2) ((r mod B) mod 2)"
    by (simp only: Suc.IH [of "r div B"] d)
  also have "\<dots> = dkt_run adv B
        (adv dkt (((r div B ^ Suc j) mod B) div 2) (((r div B ^ Suc j) mod B) mod 2)) (Suc j)
        (r mod B ^ Suc j)"
    using mod_power_div [OF assms, of r j] by simp
  finally show ?case .
qed

lemma digit_split:
  fixes q h j B :: nat
  assumes "j < B"
  shows "q = h * B + j \<longleftrightarrow> q div B = h \<and> q mod B = j"
  using assms by (auto simp: div_mult_self3 [of B h j])

text \<open>
  The shape of the tables: \<open>horizon + 1\<close> tables, the table \<open>k\<close> of
  \<open>(2 * n) ^ k\<close> rows of width \<open>n\<close>. An assignment inside the shape succeeds and
  changes one row.
\<close>

definition wf_mem :: "nat \<Rightarrow> nat \<Rightarrow> mem_table list \<Rightarrow> bool" where
  "wf_mem n horizon mem \<longleftrightarrow>
     length mem = horizon + 1 \<and>
     (\<forall>k \<le> horizon. length (mem ! k) = (2 * n) ^ k \<and>
        (\<forall>ix < (2 * n) ^ k. length (fst (mem ! k ! ix)) = n))"

lemma wf_mem_alloc: "wf_mem n horizon (alloc_mem_arrays n horizon)"
proof -
  have "alloc_mem_arrays n horizon ! k = np_zeros ((2 * n) ^ k) n" if "k \<le> horizon" for k
    using that nth_map_upt [of k "horizon + 1" 0 "\<lambda>i. np_zeros (num_histories (n * 2) i) n"]
    by (simp add: alloc_mem_arrays_def num_histories_def mult.commute Let_def)
  moreover have "length (alloc_mem_arrays n horizon) = horizon + 1"
    by (simp add: alloc_mem_arrays_def Let_def)
  ultimately show ?thesis
    by (simp add: wf_mem_def np_zeros_def)
qed

lemma assign_row_ok:
  assumes "wf_mem n horizon mem" and "step \<le> horizon" and "ix < (2 * n) ^ step"
    and "length v = n"
  shows "\<exists>mem1. assign_row mem step ix v = Inr mem1 \<and> wf_mem n horizon mem1 \<and>
     (\<forall>k \<le> horizon. \<forall>i < (2 * n) ^ k.
        mem1 ! k ! i = (if k = step \<and> i = ix then (v, Suc (snd (mem ! k ! i))) else mem ! k ! i))"
proof -
  let ?mem1 = "mem[step := (mem ! step)[ix := (v, Suc (snd (mem ! step ! ix)))]]"
  have len: "length mem = horizon + 1"
    and rows: "\<And>k. k \<le> horizon \<Longrightarrow> length (mem ! k) = (2 * n) ^ k"
    and width: "\<And>k i. k \<le> horizon \<Longrightarrow> i < (2 * n) ^ k \<Longrightarrow> length (fst (mem ! k ! i)) = n"
    using assms(1) by (simp_all add: wf_mem_def)
  have a: "assign_row mem step ix v = Inr ?mem1"
    using assms(2-4) len rows [of step] width [of step ix]
    by (simp add: assign_row_def Let_def)
  have cell: "?mem1 ! k ! i = (if k = step \<and> i = ix then (v, Suc (snd (mem ! k ! i))) else mem ! k ! i)"
    if "k \<le> horizon" "i < (2 * n) ^ k" for k i
    using that len rows [of k] by (cases "k = step") (simp_all add: nth_list_update)
  have rows1: "length (?mem1 ! k) = (2 * n) ^ k" if "k \<le> horizon" for k
    using that len rows [of k] by (cases "k = step") simp_all
  have "wf_mem n horizon ?mem1"
    unfolding wf_mem_def
  proof (intro conjI allI impI)
    show "length ?mem1 = horizon + 1" using len by simp
  next
    fix k assume "k \<le> horizon"
    then show "length (?mem1 ! k) = (2 * n) ^ k" by (rule rows1)
  next
    fix k i assume k: "k \<le> horizon" and i: "i < (2 * n) ^ k"
    show "length (fst (?mem1 ! k ! i)) = n"
      using cell [OF k i] width [OF k i] assms(4) by simp
  qed
  with a cell show ?thesis by blast
qed

text \<open>
  What a call at \<open>step\<close> with the history index \<open>h\<close> does to the row \<open>ix\<close> of the
  table \<open>k\<close>, once the name is bound: the rows whose leading digits are those of \<open>h\<close>
  are written once, with the prediction of the simulator advanced along the remaining
  digits; every other row is left as it was. \<open>subtree_ok\<close> says so of every call at
  \<open>step\<close>, \<open>child_cell\<close> is the effect of one pass of the loop body and \<open>loop_cell\<close>
  the effect of the first \<open>j\<close> passes.
\<close>

definition rec_cell ::
  "('d \<Rightarrow> nat \<Rightarrow> nat \<Rightarrow> 'd) \<Rightarrow> ('d \<Rightarrow> real list) \<Rightarrow> nat \<Rightarrow> 'd \<Rightarrow> nat \<Rightarrow> nat \<Rightarrow> mem_table list
     \<Rightarrow> nat \<Rightarrow> nat \<Rightarrow> real list \<times> nat" where
  "rec_cell adv obs B dkt step h mem k ix =
     (if step \<le> k \<and> ix div B ^ (Suc k - step) = h then
        (obs (dkt_run adv B dkt (Suc k - step) (ix mod B ^ (Suc k - step))), Suc (snd (mem ! k ! ix)))
      else mem ! k ! ix)"

definition subtree_ok ::
  "nat \<Rightarrow> (string \<Rightarrow> 'act pycallable option) \<Rightarrow> ('d \<Rightarrow> 'act \<Rightarrow> nat \<Rightarrow> 'd)
     \<Rightarrow> ('d \<Rightarrow> nat \<Rightarrow> nat \<Rightarrow> 'd) \<Rightarrow> ('d \<Rightarrow> real list) \<Rightarrow> nat \<Rightarrow> nat \<Rightarrow> bool" where
  "subtree_ok n st advsim adv obs horizon step \<longleftrightarrow>
     (\<forall>h dkt mem. wf_mem n horizon mem \<longrightarrow> h < (2 * n) ^ (step - 1) \<longrightarrow>
        (\<exists>mem'. dkt_memoize_single_recurse n st advsim obs dkt horizon step h mem = Inr mem' \<and>
           wf_mem n horizon mem' \<and>
           (\<forall>k \<le> horizon. \<forall>ix < (2 * n) ^ k.
              mem' ! k ! ix = rec_cell adv obs (2 * n) dkt step h mem k ix)))"

definition child_cell ::
  "('d \<Rightarrow> nat \<Rightarrow> nat \<Rightarrow> 'd) \<Rightarrow> ('d \<Rightarrow> real list) \<Rightarrow> nat \<Rightarrow> 'd \<Rightarrow> nat \<Rightarrow> nat \<Rightarrow> mem_table list
     \<Rightarrow> nat \<Rightarrow> nat \<Rightarrow> real list \<times> nat" where
  "child_cell adv obs B dkt' step h' mem k ix =
     (if step \<le> k \<and> ix div B ^ (k - step) = h' then
        (obs (dkt_run adv B dkt' (k - step) (ix mod B ^ (k - step))), Suc (snd (mem ! k ! ix)))
      else mem ! k ! ix)"

definition loop_cell ::
  "('d \<Rightarrow> nat \<Rightarrow> nat \<Rightarrow> 'd) \<Rightarrow> ('d \<Rightarrow> real list) \<Rightarrow> nat \<Rightarrow> 'd \<Rightarrow> nat \<Rightarrow> nat \<Rightarrow> nat \<Rightarrow> mem_table list
     \<Rightarrow> nat \<Rightarrow> nat \<Rightarrow> real list \<times> nat" where
  "loop_cell adv obs B dkt step h j mem k ix =
     (if step \<le> k \<and> ix div B ^ (Suc k - step) = h \<and> (ix div B ^ (k - step)) mod B < j then
        (obs (dkt_run adv B dkt (Suc k - step) (ix mod B ^ (Suc k - step))), Suc (snd (mem ! k ! ix)))
      else mem ! k ! ix)"

lemma memo_step_effect:
  assumes n: "1 \<le> n" and width: "\<And>d. length (obs d) = n"
    and rec: "subtree_ok n st advsim adv obs horizon (Suc step)"
    and wf: "wf_mem n horizon mem" and step: "1 \<le> step" "step \<le> horizon"
    and h: "h < (2 * n) ^ (step - 1)" and j: "j < 2 * n"
  shows "\<exists>mem2. memo_step n st advsim adv obs dkt horizon step h j (Inr mem) = Inr mem2 \<and>
     wf_mem n horizon mem2 \<and>
     (\<forall>k \<le> horizon. \<forall>ix < (2 * n) ^ k.
        mem2 ! k ! ix
          = child_cell adv obs (2 * n) (adv dkt (j div 2) (j mod 2)) step (h * (2 * n) + j) mem k ix)"
proof -
  let ?B = "2 * n" and ?h' = "h * (2 * n) + j" and ?dkt' = "adv dkt (j div 2) (j mod 2)"
  have "?h' < (h + 1) * ?B" using j by simp
  also have "\<dots> \<le> ?B ^ (step - 1) * ?B" using h by (intro mult_le_mono1) simp
  also have "\<dots> = ?B ^ step" using step(1) by (cases step) simp_all
  finally have h': "?h' < ?B ^ step" .
  obtain mem1 where a: "assign_row mem step ?h' (obs ?dkt') = Inr mem1"
    and wf1: "wf_mem n horizon mem1"
    and c1: "\<And>k i. k \<le> horizon \<Longrightarrow> i < ?B ^ k \<Longrightarrow>
        mem1 ! k ! i = (if k = step \<and> i = ?h' then (obs ?dkt', Suc (snd (mem ! k ! i))) else mem ! k ! i)"
    using assign_row_ok [OF wf step(2) h' width [of ?dkt']] by blast
  obtain mem2 where r: "dkt_memoize_single_recurse n st advsim obs ?dkt' horizon (Suc step) ?h' mem1 = Inr mem2"
    and wf2: "wf_mem n horizon mem2"
    and c2: "\<And>k ix. k \<le> horizon \<Longrightarrow> ix < ?B ^ k \<Longrightarrow>
        mem2 ! k ! ix = rec_cell adv obs ?B ?dkt' (Suc step) ?h' mem1 k ix"
    using rec wf1 h' unfolding subtree_ok_def by (metis diff_Suc_1)
  have m: "memo_step n st advsim adv obs dkt horizon step h j (Inr mem) = Inr mem2"
    using a r by (simp add: memo_step_def)
  have cell: "mem2 ! k ! ix = child_cell adv obs ?B ?dkt' step ?h' mem k ix"
    if k: "k \<le> horizon" and ix: "ix < ?B ^ k" for k ix
  proof (cases "Suc step \<le> k")
    case True
    then have ne: "k \<noteq> step" and le: "step \<le> k" and e: "Suc k - Suc step = k - step" by simp_all
    show ?thesis
      using c2 [OF k ix] c1 [OF k ix] True ne le
      by (simp add: rec_cell_def child_cell_def)
  next
    case False
    show ?thesis
    proof (cases "k = step")
      case True
      then show ?thesis
        using c2 [OF k ix] c1 [OF k ix] by (simp add: rec_cell_def child_cell_def)
    next
      case ne: False
      with False have "\<not> step \<le> k" by simp
      then show ?thesis
        using c2 [OF k ix] c1 [OF k ix] False ne by (simp add: rec_cell_def child_cell_def)
    qed
  qed
  from m wf2 cell show ?thesis by blast
qed


lemma mod_power_top:
  fixes r B :: nat
  assumes "0 < B"
  shows "(r mod B ^ Suc m) div B ^ m = (r div B ^ m) mod B"
    and "(r mod B ^ Suc m) mod B ^ m = r mod B ^ m"
proof -
  have "r mod (B ^ m * B) = B ^ m * (r div B ^ m mod B) + r mod B ^ m"
    by (rule mod_mult2_eq)
  then have "(r mod (B ^ m * B)) div B ^ m = (B ^ m * (r div B ^ m mod B) + r mod B ^ m) div B ^ m"
    by simp
  also have "\<dots> = (r div B ^ m) mod B"
    using assms by simp
  finally show "(r mod B ^ Suc m) div B ^ m = (r div B ^ m) mod B"
    by (simp add: mult.commute)
  show "(r mod B ^ Suc m) mod B ^ m = r mod B ^ m"
    by (simp add: mod_mod_cancel)
qed

lemma child_after_loop:
  assumes B: "0 < B" and j: "j < B"
    and cj: "memj ! k ! ix = loop_cell adv obs B dkt step h j mem k ix"
  shows "child_cell adv obs B (adv dkt (j div 2) (j mod 2)) step (h * B + j) memj k ix
     = loop_cell adv obs B dkt step h (Suc j) mem k ix"
proof (cases "step \<le> k")
  case False
  then show ?thesis
    using cj by (simp add: child_cell_def loop_cell_def)
next
  case le: True
  define m where "m = k - step"
  define q where "q = ix div B ^ m"
  have sm: "Suc k - step = Suc m"
    using le by (simp add: m_def)
  have "ix div (B ^ m * B) = ix div B ^ m div B"
    by (rule div_mult2_eq)
  then have qd: "ix div B ^ Suc m = q div B"
    by (simp add: q_def mult.commute)
  have split: "q = h * B + j \<longleftrightarrow> q div B = h \<and> q mod B = j"
    using j by (rule digit_split)
  have lc: "loop_cell adv obs B dkt step h j' mem k ix
      = (if q div B = h \<and> q mod B < j' then
           (obs (dkt_run adv B dkt (Suc m) (ix mod B ^ Suc m)), Suc (snd (mem ! k ! ix)))
         else mem ! k ! ix)" for j'
    by (simp only: loop_cell_def sm qd m_def [symmetric] q_def [symmetric] le simp_thms)
  have cc: "child_cell adv obs B (adv dkt (j div 2) (j mod 2)) step (h * B + j) memj k ix
      = (if q = h * B + j then
           (obs (dkt_run adv B (adv dkt (j div 2) (j mod 2)) m (ix mod B ^ m)),
            Suc (snd (memj ! k ! ix)))
         else memj ! k ! ix)"
    by (simp only: child_cell_def m_def [symmetric] q_def [symmetric] le simp_thms)
  show ?thesis
  proof (cases "q div B = h \<and> q mod B = j")
    case True
    then have qe: "q = h * B + j" using split by simp
    have old: "memj ! k ! ix = mem ! k ! ix"
      using True by (simp add: cj lc)
    have top: "((ix mod B ^ Suc m) div B ^ m) mod B = j"
      using mod_power_top(1) [OF B, of ix m] True j by (simp add: q_def)
    have run: "dkt_run adv B dkt (Suc m) (ix mod B ^ Suc m)
        = dkt_run adv B (adv dkt (j div 2) (j mod 2)) m (ix mod B ^ m)"
      by (simp only: dkt_run_top [OF B, of adv dkt m "ix mod B ^ Suc m"] top
          mod_power_top(2) [OF B, of ix m])
    have lt: "q mod B < Suc j" using True by simp
    show ?thesis
      using True qe lt by (simp only: cc lc [of "Suc j"] run old simp_thms if_True)
  next
    case False
    then have ne: "q \<noteq> h * B + j" using split by simp
    have c: "(q div B = h \<and> q mod B < Suc j) \<longleftrightarrow> (q div B = h \<and> q mod B < j)"
      using False by (auto simp: less_Suc_eq)
    show ?thesis
      using ne by (simp only: cc lc [of "Suc j"] c cj lc [of j] if_False)
  qed
qed

lemma memo_loop:
  assumes n: "1 \<le> n" and width: "\<And>d. length (obs d) = n"
    and rec: "subtree_ok n st advsim adv obs horizon (Suc step)"
    and wf: "wf_mem n horizon mem" and step: "1 \<le> step" "step \<le> horizon"
    and h: "h < (2 * n) ^ (step - 1)" and j: "j \<le> 2 * n"
  shows "\<exists>memj. fold (memo_step n st advsim adv obs dkt horizon step h) [0..<j] (Inr mem) = Inr memj \<and>
     wf_mem n horizon memj \<and>
     (\<forall>k \<le> horizon. \<forall>ix < (2 * n) ^ k.
        memj ! k ! ix = loop_cell adv obs (2 * n) dkt step h j mem k ix)"
  using j
proof (induction j)
  case 0
  have "\<forall>k \<le> horizon. \<forall>ix < (2 * n) ^ k.
      mem ! k ! ix = loop_cell adv obs (2 * n) dkt step h 0 mem k ix"
    by (simp add: loop_cell_def)
  with wf show ?case by simp
next
  case (Suc j)
  then have jl: "j < 2 * n" and jle: "j \<le> 2 * n" by simp_all
  have B: "0 < 2 * n" using n by simp
  obtain memj where f: "fold (memo_step n st advsim adv obs dkt horizon step h) [0..<j] (Inr mem) = Inr memj"
    and wfj: "wf_mem n horizon memj"
    and cj: "\<And>k ix. k \<le> horizon \<Longrightarrow> ix < (2 * n) ^ k \<Longrightarrow>
        memj ! k ! ix = loop_cell adv obs (2 * n) dkt step h j mem k ix"
    using Suc.IH [OF jle] by blast
  obtain mem2 where m: "memo_step n st advsim adv obs dkt horizon step h j (Inr memj) = Inr mem2"
    and wf2: "wf_mem n horizon mem2"
    and c2: "\<And>k ix. k \<le> horizon \<Longrightarrow> ix < (2 * n) ^ k \<Longrightarrow>
        mem2 ! k ! ix
          = child_cell adv obs (2 * n) (adv dkt (j div 2) (j mod 2)) step (h * (2 * n) + j) memj k ix"
    using memo_step_effect [OF n width rec wfj step h jl, of dkt] by blast
  have fs: "fold (memo_step n st advsim adv obs dkt horizon step h) [0..<Suc j] (Inr mem) = Inr mem2"
    using f m by simp
  have cell: "mem2 ! k ! ix = loop_cell adv obs (2 * n) dkt step h (Suc j) mem k ix"
    if k: "k \<le> horizon" and ix: "ix < (2 * n) ^ k" for k ix
    using c2 [OF k ix] child_after_loop [OF B jl cj [OF k ix]] by simp
  from fs wf2 cell show ?case by blast
qed

lemma loop_cell_full:
  assumes "0 < B"
  shows "loop_cell adv obs B dkt step h B mem k ix = rec_cell adv obs B dkt step h mem k ix"
  using assms by (simp add: loop_cell_def rec_cell_def)

lemma subtree_ok_all:
  assumes n: "1 \<le> n" and width: "\<And>d. length (obs d) = n" and step: "1 \<le> step"
    and bound: "st ''make_student_action'' = Some mk"
    and made: "\<And>a. mk n a = Inr (act a)"
    and adv: "adv = (\<lambda>d a ob. advsim d (act a) ob)"
  shows "subtree_ok n st advsim adv obs horizon step"
  using step
proof (induction "horizon + 1 - step" arbitrary: step)
  case 0
  then have gt: "step > horizon" by simp
  show ?case
    unfolding subtree_ok_def
  proof (intro allI impI)
    fix h dkt mem
    assume wf: "wf_mem n horizon mem"
    have r: "dkt_memoize_single_recurse n st advsim obs dkt horizon step h mem = Inr mem"
      using gt by (simp add: recurse_unfold [where st = st and mk = mk and n = n and act = act and adv = adv
          and advsim = advsim, OF bound made adv])
    have "\<forall>k \<le> horizon. \<forall>ix < (2 * n) ^ k.
        mem ! k ! ix = rec_cell adv obs (2 * n) dkt step h mem k ix"
      using gt by (simp add: rec_cell_def)
    with r wf show "\<exists>mem'. dkt_memoize_single_recurse n st advsim obs dkt horizon step h mem = Inr mem' \<and>
        wf_mem n horizon mem' \<and>
        (\<forall>k \<le> horizon. \<forall>ix < (2 * n) ^ k.
           mem' ! k ! ix = rec_cell adv obs (2 * n) dkt step h mem k ix)"
      by blast
  qed
next
  case (Suc d)
  then have le: "step \<le> horizon" and d: "d = horizon + 1 - Suc step" by simp_all
  have rec: "subtree_ok n st advsim adv obs horizon (Suc step)"
    using Suc.hyps(1) [OF d] by simp
  have B: "0 < 2 * n" using n by simp
  show ?case
    unfolding subtree_ok_def
  proof (intro allI impI)
    fix h dkt mem
    assume wf: "wf_mem n horizon mem" and h: "h < (2 * n) ^ (step - 1)"
    obtain memj where f: "fold (memo_step n st advsim adv obs dkt horizon step h) [0..<2 * n] (Inr mem) = Inr memj"
      and wfj: "wf_mem n horizon memj"
      and cj: "\<forall>k \<le> horizon. \<forall>ix < (2 * n) ^ k.
          memj ! k ! ix = loop_cell adv obs (2 * n) dkt step h (2 * n) mem k ix"
      using memo_loop [OF n width rec wf Suc.prems le h order_refl, of dkt] by blast
    have r: "dkt_memoize_single_recurse n st advsim obs dkt horizon step h mem = Inr memj"
      using le f by (simp add: recurse_unfold [where st = st and mk = mk and n = n and act = act and adv = adv
          and advsim = advsim, OF bound made adv])
    have "\<forall>k \<le> horizon. \<forall>ix < (2 * n) ^ k.
        memj ! k ! ix = rec_cell adv obs (2 * n) dkt step h mem k ix"
      using cj by (simp only: loop_cell_full [OF B])
    with r wfj show "\<exists>mem'. dkt_memoize_single_recurse n st advsim obs dkt horizon step h mem = Inr mem' \<and>
        wf_mem n horizon mem' \<and>
        (\<forall>k \<le> horizon. \<forall>ix < (2 * n) ^ k.
           mem' ! k ! ix = rec_cell adv obs (2 * n) dkt step h mem k ix)"
      by blast
  qed
qed

text \<open>
  Indices and histories: the history of an index has the length of its table, its
  actions are concepts and its observations are 0 or 1; encoding it gives the index
  back, and decoding the index of a history gives the history back.
\<close>

lemma history_of_ix_length: "length (history_of_ix n k ix) = k"
  by (induction k arbitrary: ix) simp_all

lemma history_of_ix_range:
  assumes "1 \<le> n" and "(a, ob) \<in> set (history_of_ix n k ix)"
  shows "a < n \<and> ob < 2"
  using assms(2)
proof (induction k arbitrary: ix)
  case 0
  then show ?case by simp
next
  case (Suc k)
  have "ix mod (2 * n) < 2 * n" using assms(1) by simp
  then have "(ix mod (2 * n)) div 2 < n" by simp
  with Suc show ?case by auto
qed

lemma encode_history_snoc:
  "encode_history n (h @ [(a, ob)]) = encode_history n h * (2 * n) + (a * 2 + ob)"
  by (simp add: encode_history_def history_ix_append_def action_ob_encode_def)

lemma encode_history_of_ix:
  assumes "ix < (2 * n) ^ k"
  shows "encode_history n (history_of_ix n k ix) = ix"
  using assms
proof (induction k arbitrary: ix)
  case 0
  then show ?case by (simp add: encode_history_def)
next
  case (Suc k)
  have "ix div (2 * n) < (2 * n) ^ k"
    using Suc.prems by (simp add: less_mult_imp_div_less mult.commute)
  then have "encode_history n (history_of_ix n k (ix div (2 * n))) = ix div (2 * n)"
    by (rule Suc.IH)
  moreover have "ix mod (2 * n) div 2 * 2 + ix mod (2 * n) mod 2 = ix mod (2 * n)"
    by simp
  ultimately show ?case
    by (simp only: history_of_ix.simps encode_history_snoc div_mult_mod_eq)
qed

lemma history_of_ix_encode:
  assumes "\<forall>(a, ob) \<in> set h. a < n \<and> ob < 2"
  shows "history_of_ix n (length h) (encode_history n h) = h"
  using assms
proof (induction h rule: rev_induct)
  case Nil
  show ?case by simp
next
  case (snoc x h)
  obtain a ob where x: "x = (a, ob)" by (cases x)
  have a: "a < n" and ob: "ob < 2" and rest: "\<forall>(a, ob) \<in> set h. a < n \<and> ob < 2"
    using snoc.prems x by auto
  have d: "a * 2 + ob < 2 * n" using a ob by simp
  have dv: "(encode_history n h * (2 * n) + (a * 2 + ob)) div (2 * n) = encode_history n h"
    and md: "(encode_history n h * (2 * n) + (a * 2 + ob)) mod (2 * n) = a * 2 + ob"
    using d by simp_all
  have da: "(a * 2 + ob) div 2 = a" and dm: "(a * 2 + ob) mod 2 = ob"
    using ob by simp_all
  show ?case
    using snoc.IH [OF rest]
    by (simp only: x length_append_singleton history_of_ix.simps encode_history_snoc dv md da dm)
qed

lemma singleton_list:
  assumes "length xs = 1" and "xs ! 0 = a"
  shows "xs = [a]"
  using assms by (cases xs) simp_all

lemma alloc_mem_arrays_nth:
  assumes "i \<le> horizon"
  shows "alloc_mem_arrays n horizon ! i = replicate ((2 * n) ^ i) (replicate n 0, 0)"
  using assms nth_map_upt [of i "horizon + 1" 0 "\<lambda>i. np_zeros (num_histories (n * 2) i) n"]
  by (simp add: alloc_mem_arrays_def num_histories_def np_zeros_def mult.commute Let_def)

lemma alloc_mem_arrays_length: "length (alloc_mem_arrays n horizon) = horizon + 1"
  by (simp add: alloc_mem_arrays_def Let_def)

lemma memoize_from_root:
  assumes n: "1 \<le> n" and width: "\<And>d. length (obs d) = n"
    and bound: "st ''make_student_action'' = Some mk"
    and made: "\<And>a. mk n a = Inr (act a)"
    and adv: "adv = (\<lambda>d a ob. advsim d (act a) ob)"
  shows "\<exists>m. dkt_memoize_single n st advsim obs dkt horizon = Inr m \<and> length m = horizon + 1 \<and>
     m ! 0 = [(replicate n 0, 0)] \<and>
     (\<forall>k. 1 \<le> k \<and> k \<le> horizon \<longrightarrow> length (m ! k) = (2 * n) ^ k \<and>
        (\<forall>ix < (2 * n) ^ k. m ! k ! ix = (obs (dkt_at adv dkt (history_of_ix n k ix)), 1)))"
proof -
  let ?a = "alloc_mem_arrays n horizon"
  have ok: "subtree_ok n st advsim adv obs horizon 1"
    using n width _ bound made adv by (rule subtree_ok_all) simp
  have "0 < (2 * n) ^ (1 - 1)" by simp
  with ok wf_mem_alloc [of n horizon]
  have "\<exists>m. dkt_memoize_single_recurse n st advsim obs dkt horizon 1 0 ?a = Inr m \<and>
      wf_mem n horizon m \<and>
      (\<forall>k \<le> horizon. \<forall>ix < (2 * n) ^ k.
         m ! k ! ix = rec_cell adv obs (2 * n) dkt 1 0 ?a k ix)"
    unfolding subtree_ok_def by (elim allE impE) assumption+
  then obtain m where r: "dkt_memoize_single_recurse n st advsim obs dkt horizon 1 0 ?a = Inr m"
    and wf: "wf_mem n horizon m"
    and c: "\<And>k ix. k \<le> horizon \<Longrightarrow> ix < (2 * n) ^ k \<Longrightarrow>
        m ! k ! ix = rec_cell adv obs (2 * n) dkt 1 0 ?a k ix"
    by blast
  have len: "length m = horizon + 1"
    and rows: "\<And>k. k \<le> horizon \<Longrightarrow> length (m ! k) = (2 * n) ^ k"
    using wf by (simp_all add: wf_mem_def)
  have "m ! 0 ! 0 = (replicate n 0, 0)"
    using c [of 0 0] alloc_mem_arrays_nth [of 0 horizon n] by (simp add: rec_cell_def)
  then have zero: "m ! 0 = [(replicate n 0, 0)]"
    using rows [of 0] by (intro singleton_list) simp_all
  have cell: "m ! k ! ix = (obs (dkt_at adv dkt (history_of_ix n k ix)), 1)"
    if k: "1 \<le> k" "k \<le> horizon" and ix: "ix < (2 * n) ^ k" for k ix
  proof -
    have "?a ! k ! ix = (replicate n 0, 0)"
      using alloc_mem_arrays_nth [OF k(2), of n] ix by simp
    then show ?thesis
      using c [OF k(2) ix] k(1) ix
      by (simp add: rec_cell_def dkt_run_history)
  qed
  from r len zero rows cell show ?thesis
    unfolding dkt_memoize_single_def by blast
qed

text \<open>
  With \<open>make_student_action\<close> bound in the module \<open>student\<close> to a function that
  returns an action for every concept, and a simulator whose predictions have one entry
  per concept, the recursion does what its docstring says: it returns, every row of the
  tables 1 to \<open>horizon\<close> has been assigned exactly once and holds the prediction of the
  simulator advanced along the history its index stands for, and the table 0 still is its
  single zero row.
\<close>

theorem dkt_memoize_single_exhaustive_when_bound:
  assumes "1 \<le> n_concepts"
    and "st ''make_student_action'' = Some make_student_action"
    and "\<And>a. make_student_action n_concepts a = Inr (action a)"
    and "\<And>d. length (sample_observations d) = n_concepts"
  shows "\<exists>m. dkt_memoize_single n_concepts st advance sample_observations dkt horizon = Inr m \<and>
        length m = horizon + 1 \<and>
        m ! 0 = [(replicate n_concepts 0, 0)] \<and>
        (\<forall>k. 1 \<le> k \<and> k \<le> horizon \<longrightarrow>
           length (m ! k) = (2 * n_concepts) ^ k \<and>
           (\<forall>ix < (2 * n_concepts) ^ k.
              length (history_of_ix n_concepts k ix) = k \<and>
              encode_history n_concepts (history_of_ix n_concepts k ix) = ix \<and>
              m ! k ! ix
                = (sample_observations
                     (dkt_at (\<lambda>d a ob. advance d (action a) ob) dkt
                        (history_of_ix n_concepts k ix)), 1)))"
proof -
  let ?adv = "\<lambda>d a ob. advance d (action a) ob"
  obtain m where r: "dkt_memoize_single n_concepts st advance sample_observations dkt horizon = Inr m"
    and len: "length m = horizon + 1"
    and zero: "m ! 0 = [(replicate n_concepts 0, 0)]"
    and lv: "\<And>k. 1 \<le> k \<Longrightarrow> k \<le> horizon \<Longrightarrow> length (m ! k) = (2 * n_concepts) ^ k"
    and cell: "\<And>k ix. 1 \<le> k \<Longrightarrow> k \<le> horizon \<Longrightarrow> ix < (2 * n_concepts) ^ k \<Longrightarrow>
        m ! k ! ix
          = (sample_observations (dkt_at ?adv dkt (history_of_ix n_concepts k ix)), 1)"
    using memoize_from_root [where n = n_concepts and obs = sample_observations
        and adv = ?adv and advsim = advance and st = st and mk = make_student_action
        and act = action and dkt = dkt and horizon = horizon,
        OF assms(1) assms(4) assms(2) assms(3) refl]
    by blast
  have levels: "\<forall>k. 1 \<le> k \<and> k \<le> horizon \<longrightarrow>
           length (m ! k) = (2 * n_concepts) ^ k \<and>
           (\<forall>ix < (2 * n_concepts) ^ k.
              length (history_of_ix n_concepts k ix) = k \<and>
              encode_history n_concepts (history_of_ix n_concepts k ix) = ix \<and>
              m ! k ! ix
                = (sample_observations (dkt_at ?adv dkt (history_of_ix n_concepts k ix)), 1))"
    using lv cell by (simp add: history_of_ix_length encode_history_of_ix)
  from r len zero levels show ?thesis by blast
qed

text \<open>
  An exception raised in one pass of a loop is the result of the loop.
\<close>

lemma fold_error_absorbs:
  assumes "\<And>x. f x (Inl e) = Inl e"
  shows "fold f xs (Inl e) = Inl e"
  using assms by (induction xs) simp_all

lemma recurse_unbound:
  assumes n: "1 \<le> n" and step: "step \<le> horizon"
    and unbound: "st ''make_student_action'' = None"
  shows "dkt_memoize_single_recurse n st adv obs dkt horizon step h mem
     = Inl (AttributeError ''make_student_action'')"
proof -
  let ?F = "\<lambda>d acc. case acc of Inl e \<Rightarrow> Inl e
              | Inr (mem :: mem_table list) \<Rightarrow> Inl (AttributeError ''make_student_action'')"
  have up: "[0..<2 * n] = 0 # [1..<2 * n]"
    using n by (simp add: upt_conv_Cons)
  have "dkt_memoize_single_recurse n st adv obs dkt horizon step h mem
      = fold ?F [0..<2 * n] (Inr mem)"
    using step
    unfolding dkt_memoize_single_recurse.simps [of n st adv obs dkt horizon step h mem]
      fold_actions_obs
    by (simp add: module_getattr_def unbound Let_def)
  also have "\<dots> = fold ?F [1..<2 * n] (Inl (AttributeError ''make_student_action''))"
    by (simp add: up)
  also have "\<dots> = Inl (AttributeError ''make_student_action'')"
    by (rule fold_error_absorbs) simp
  finally show ?thesis .
qed

lemma student_module_unbound:
  assumes "star ''make_student_action'' = None"
  shows "student_module own star ''make_student_action'' = None"
  using assms by (simp add: student_module_def student_late_names_def student_early_names_def)

text \<open>
  C5: the claim describes what \<open>dkt_memoize_single\<close> is written to do. The first half
  holds of the code: \<open>horizon + 1\<close> tables are allocated, the table \<open>i\<close> of
  \<open>(2 * n_concepts) ^ i\<close> zero rows of width \<open>n_concepts\<close>. The recursion does not get
  to write a row: \<open>student.py\<close> defines no \<open>make_student_action\<close>, so unless the
  constants imported by \<open>from constants import *\<close> happen to include that name, the
  first pass of the loop raises \<open>AttributeError\<close> at line 161, before the assignment of
  line 163, for every \<open>n_concepts \<ge> 1\<close> and \<open>horizon \<ge> 1\<close>; the recursion never
  completes and no table is saved.
\<close>

theorem dkt_memoize_single_raises_AttributeError:
  assumes "1 \<le> n_concepts" and "1 \<le> horizon" and "star ''make_student_action'' = None"
  shows "length (alloc_mem_arrays n_concepts horizon) = horizon + 1
     \<and> (\<forall>i \<le> horizon. alloc_mem_arrays n_concepts horizon ! i
            = replicate ((2 * n_concepts) ^ i) (replicate n_concepts 0, 0))
     \<and> module_getattr (student_module own star) ''make_student_action''
         = Inl (AttributeError ''make_student_action'')
     \<and> dkt_memoize_single n_concepts (student_module own star) advance sample_observations dkt
           horizon
         = Inl (AttributeError ''make_student_action'')"
proof -
  note u = student_module_unbound [of star own, OF assms(3)]
  have a: "module_getattr (student_module own star) ''make_student_action''
      = Inl (AttributeError ''make_student_action'')"
    by (simp add: module_getattr_def u)
  have b: "dkt_memoize_single n_concepts (student_module own star) advance sample_observations dkt
           horizon = Inl (AttributeError ''make_student_action'')"
    unfolding dkt_memoize_single_def using assms(1,2) u by (intro recurse_unbound) simp_all
  have c: "\<forall>i \<le> horizon. alloc_mem_arrays n_concepts horizon ! i
            = replicate ((2 * n_concepts) ^ i) (replicate n_concepts 0, 0)"
    by (simp add: alloc_mem_arrays_nth)
  from alloc_mem_arrays_length [of n_concepts horizon] a b c show ?thesis
    by (intro conjI)
qed

text \<open>
  Four concepts and the horizon 6, with nothing brought by the star import.
\<close>

theorem dkt_memoize_single_raises_AttributeError_witness:
  "dkt_memoize_single 4 (student_module (\<lambda>x n a. Inl TypeError) Map.empty)
       (\<lambda>d a ob. d @ [(a, ob)]) (\<lambda>d. replicate 4 (real (length d))) ([] :: (nat \<times> nat) list) 6
     = Inl (AttributeError ''make_student_action'')
   \<and> length (alloc_mem_arrays 4 6) = 7"
  using dkt_memoize_single_raises_AttributeError [of 4 6 Map.empty "\<lambda>x n a. Inl TypeError"
      "\<lambda>d a ob. d @ [(a, ob)]" "\<lambda>d. replicate 4 (real (length d))" "[] :: (nat \<times> nat) list"]
  by simp

end
